theory Spec2Isabelle
  imports Main "HOL-Library.Sublist" "HOL-Library.Multiset" "HOL-Library.AList"
begin

section \<open>Package tmpl: the template registry, compiler and render pipeline\<close>

text \<open>
  The Go package \<open>tmpl\<close> keeps a process-wide map from template names to compiled
  templates, fills it at startup from sets of template files (\<open>Load\<close>,
  \<open>parseHTMLTemplates\<close>), and renders one template per request (\<open>Exec\<close>).
  The definitions below follow the Go text function by function. Everything the package
  gets from other packages (the template engine \<open>html/template\<close>, the asset file system,
  the session reader, the routing and tracing helpers) is a parameter.
\<close>

subsection \<open>Errors, panics and process exit\<close>

text \<open>
  A Go \<open>error\<close> value. \<open>ErrNoSession\<close> is the sentinel \<open>appauth.ErrNoSession\<close>, which
  \<open>Exec\<close> compares against by identity; \<open>Error msg\<close> is any other error value, with the
  text its \<open>Error()\<close> method returns.
\<close>

datatype error = ErrNoSession | Error string

text \<open>A call either returns its value or panics with a message.\<close>

datatype 'a outcome = Returned 'a | Panicked string

text \<open>Sequencing: a panic ends the computation, a returned value is passed on.\<close>

fun and_then :: "'a outcome \<Rightarrow> ('a \<Rightarrow> 'b outcome) \<Rightarrow> 'b outcome" where
  "and_then (Panicked p) f = Panicked p"
| "and_then (Returned x) f = f x"

text \<open>
  The three \<open>log.Fatalf\<close> calls of \<open>parseHTMLTemplates\<close> (each ends the process), and
  the run-time panic of \<open>set[0]\<close> on an empty set, which ends the process as well since the
  goroutine does not recover.
\<close>

datatype fatal =
    ReadTemplateAsset string error
  | TemplateParse "string list" error
  | RootNotFound "string list"
  | IndexOutOfRange

subsection \<open>Requests, the Common struct and page data\<close>

type_synonym url = string
type_synonym Context = string
type_synonym header = "string \<rightharpoonup> string list"

text \<open>
  The fields of \<open>*http.Request\<close> that \<open>Exec\<close> reads itself. A URL is represented by its
  string form, so \<open>URL.String()\<close> is the identity; a \<open>*url.URL\<close> that may be nil is a
  \<open>url option\<close>.
\<close>

record Request =
  req_URL :: url
  req_Host :: string
  req_Header :: header

record User =
  UID :: int
  Login :: string

text \<open>The struct \<open>Common\<close>, field by field; pointers that may be nil are options.\<close>

record Common =
  RequestHost :: string
  Session :: "string option"
  CSRFToken :: string
  CurrentUser :: "User option"
  UserEmails :: "string list option"
  CurrentRoute :: string
  CurrentURI :: "url option"
  CurrentURL :: "url option"
  CurrentQuery :: "(string \<times> string list) list"
  CurrentSpanID :: nat
  TemplateName :: string
  AppURL :: "url option"
  CanonicalURL :: "url option"
  HostName :: string
  Ctx :: "Context option"
  CurrentRouteVars :: "(string \<times> string) list"
  Debug :: bool
  ReturnTo :: string
  DisableExternalLinks :: bool
  Features :: "string list"
  ErrorID :: string
  CacheControl :: string
  HideMOTD :: bool
  HideSearch :: bool

text \<open>
  \<open>Exec\<close> receives its page data as \<open>interface{}\<close> and inspects it by reflection, so the
  model keeps what reflection can see. A field of the struct holds a \<open>Common\<close>, a non-nil
  value implementing \<open>error\<close> (given by its message), the nil interface value, or a value
  of some other type.
\<close>

datatype field_value = VCommon Common | VError string | VNil | VOther string

text \<open>
  The page data: the nil interface, a value that is not a pointer, a nil pointer, a
  pointer to something that is not a struct, or a pointer to a struct, given by its
  fields in declaration order.
\<close>

datatype page_data =
    NilData
  | NonPointer
  | NilPointer
  | PointerToNonStruct
  | PointerToStruct "(string \<times> field_value) list"

subsection \<open>The registry\<close>

text \<open>
  \<open>templates\<close> is \<open>map[string]*htmpl.Template\<close>. A missing key reads as the nil
  pointer, so the map is a partial function and \<open>None\<close> is nil. The mutex only
  serialises the single map access of each operation.
\<close>

type_synonym 'tmpl templates = "string \<rightharpoonup> 'tmpl"

definition Get :: "'tmpl templates \<Rightarrow> string \<Rightarrow> 'tmpl option" where
  "Get templates name = templates name"

definition Add :: "string \<Rightarrow> 'tmpl \<Rightarrow> 'tmpl templates \<Rightarrow> 'tmpl templates" where
  "Add name tmpl templates = templates(name \<mapsto> tmpl)"

definition Delete :: "string \<Rightarrow> 'tmpl templates \<Rightarrow> 'tmpl templates" where
  "Delete name templates = templates(name := None)"

subsection \<open>The asset file system and the template engine\<close>

text \<open>
  \<open>tmpldata.Data.Open\<close> either fails or gives a file; \<open>ioutil.ReadAll\<close> on that file
  either fails or gives its bytes. A file is represented by what reading it yields.
\<close>

type_synonym asset_file = "error + string"
type_synonym filesystem = "string \<Rightarrow> error + asset_file"

definition ReadAll :: "asset_file \<Rightarrow> error + string" where
  "ReadAll f = f"

text \<open>
  The part of \<open>html/template\<close> the package uses: \<open>htmpl_New\<close> is
  \<open>htmpl.New("")\<close> with \<open>FuncMap\<close> bound, \<open>htmpl_Parse t text\<close> adds the definitions
  of \<open>text\<close> to \<open>t\<close> or fails, \<open>htmpl_Lookup t name\<close> finds a definition of \<open>t\<close> by name
  (nil when there is none), and \<open>htmpl_Execute t data\<close> is \<open>t.Execute(w, data)\<close>: the
  bytes it writes to \<open>w\<close> and the error it returns, if any.
\<close>

record 'tmpl htmpl =
  htmpl_New :: "'tmpl"
  htmpl_Parse :: "'tmpl \<Rightarrow> string \<Rightarrow> error + 'tmpl"
  htmpl_Lookup :: "'tmpl \<Rightarrow> string \<Rightarrow> 'tmpl option"
  htmpl_Execute :: "'tmpl \<Rightarrow> page_data \<Rightarrow> string \<times> error option"

subsection \<open>The compiler: parseHTMLTemplates\<close>

text \<open>
  The inner loop \<open>for _, tname := range set\<close> of the goroutine: open the asset, read it,
  parse it into \<open>t\<close>; the first failure is fatal. \<open>tset\<close> is the variable \<open>set\<close> of the
  Go text, the whole set (it appears in the message of a parse failure), and \<open>tnames\<close>
  are the fragments still to read.
\<close>

fun parse_fragments ::
  "'tmpl htmpl \<Rightarrow> filesystem \<Rightarrow> string list \<Rightarrow> string list \<Rightarrow> 'tmpl \<Rightarrow> fatal + 'tmpl" where
  "parse_fragments H Data tset [] t = Inr t"
| "parse_fragments H Data tset (tname # tnames) t =
     (case Data (''/'' @ tname) of
        Inl err \<Rightarrow> Inl (ReadTemplateAsset tname err)
      | Inr f \<Rightarrow>
          (case ReadAll f of
             Inl err \<Rightarrow> Inl (ReadTemplateAsset tname err)
           | Inr tmpl \<Rightarrow>
               (case htmpl_Parse H t tmpl of
                  Inl err \<Rightarrow> Inl (TemplateParse tset err)
                | Inr t' \<Rightarrow> parse_fragments H Data tset tnames t')))"

text \<open>
  The goroutine up to its last statement: the loop, then \<open>t.Lookup("ROOT")\<close>, then the
  key \<open>set[0]\<close>. It yields the arguments of the final \<open>Add(set[0], t)\<close>.
\<close>

definition compile_set ::
  "'tmpl htmpl \<Rightarrow> filesystem \<Rightarrow> string list \<Rightarrow> fatal + (string \<times> 'tmpl)" where
  "compile_set H Data tset =
     (case parse_fragments H Data tset tset (htmpl_New H) of
        Inl f \<Rightarrow> Inl f
      | Inr t \<Rightarrow>
          (case htmpl_Lookup H t ''ROOT'' of
             None \<Rightarrow> Inl (RootNotFound tset)
           | Some root \<Rightarrow>
               (case tset of
                  [] \<Rightarrow> Inl IndexOutOfRange
                | name # _ \<Rightarrow> Inr (name, root))))"

text \<open>
  The state of the process while it loads: still running with the registry as it is, or
  ended by a fatal call, with the registry as it was at that moment.
\<close>

datatype 'tmpl startup = Completed "'tmpl templates" | Aborted fatal "'tmpl templates"

text \<open>
  The goroutines of one \<open>parseHTMLTemplates\<close> call share nothing but the registry, which
  each touches once, in its final \<open>Add\<close> under the lock. A run is therefore a sequence of
  whole goroutines in the order in which they reach that point; the first fatal call ends
  the process.
\<close>

fun run_tasks ::
  "'tmpl htmpl \<Rightarrow> filesystem \<Rightarrow> string list list \<Rightarrow> 'tmpl templates \<Rightarrow> 'tmpl startup" where
  "run_tasks H Data [] templates = Completed templates"
| "run_tasks H Data (tset # sets) templates =
     (case compile_set H Data tset of
        Inl f \<Rightarrow> Aborted f templates
      | Inr (name, t) \<Rightarrow> run_tasks H Data sets (Add name t templates))"

text \<open>
  \<open>set := setv; if layout != nil { set = append(setv, layout...) }\<close>. The layout slice may
  be nil, hence the option.
\<close>

definition with_layout :: "string list option \<Rightarrow> string list \<Rightarrow> string list" where
  "with_layout layout setv = (case layout of None \<Rightarrow> setv | Some l \<Rightarrow> setv @ l)"

text \<open>
  The scheduler is a parameter: \<open>sched\<close> maps the goroutines started by one call to the
  order in which they finish. \<open>fair sched\<close> says it runs each of them exactly once.
  \<open>parseHTMLTemplates\<close> returns (always nil) only after \<open>wg.Wait()\<close>, that is when the run
  has completed.
\<close>

type_synonym scheduler = "string list list \<Rightarrow> string list list"

definition fair :: "scheduler \<Rightarrow> bool" where
  "fair sched = (\<forall>tasks. mset (sched tasks) = mset tasks)"

definition parseHTMLTemplates ::
  "scheduler \<Rightarrow> 'tmpl htmpl \<Rightarrow> filesystem \<Rightarrow> string list list \<Rightarrow> string list option \<Rightarrow>
   'tmpl templates \<Rightarrow> 'tmpl startup" where
  "parseHTMLTemplates sched H Data sets layout templates =
     run_tasks H Data (sched (map (with_layout layout) sets)) templates"

subsection \<open>The declared template sets and Load\<close>

definition repoTemplates_sets :: "string list list" where
  "repoTemplates_sets =
    [[''repo/main.html'', ''repo/readme.inc.html'', ''repo/tree.inc.html'',
      ''repo/tree/dir.inc.html'', ''repo/commit.inc.html''],
     [''repo/badges.html'', ''repo/badges_and_counters.html''],
     [''repo/counters.html'', ''repo/badges_and_counters.html''],
     [''repo/builds.html'', ''builds/build.inc.html''],
     [''repo/build.html'', ''builds/build.inc.html'', ''repo/commit.inc.html''],
     [''repo/tree/file.html''],
     [''repo/tree/doc.html'', ''repo/commit.inc.html''],
     [''repo/tree/dir.html'', ''repo/tree/dir.inc.html'', ''repo/commit.inc.html''],
     [''repo/search.html''],
     [''repo/frame.html'', ''error/common.html''],
     [''repo/commit.html'', ''repo/commit.inc.html''],
     [''repo/commits.html'', ''repo/commit.inc.html''],
     [''repo/branches.html''],
     [''repo/tags.html''],
     [''repo/compare.html'', ''repo/commit.inc.html''],
     [''repo/no_vcs_data.html''],
     [''def/examples.html'', ''def/examples.inc.html'', ''def/snippet.inc.html'',
      ''def/def.html'']]"

definition repoTemplates_layout :: "string list" where
  "repoTemplates_layout =
    [''repo/repo.html'', ''repo/subnav.html'', ''common.html'', ''layout.html'',
     ''nav.html'', ''footer.html'']"

definition commonTemplates_sets :: "string list list" where
  "commonTemplates_sets =
    [[''user/login.html''],
     [''user/signup.html''],
     [''user/logged_out.html''],
     [''user/forgot_password.html''],
     [''user/password_reset.html''],
     [''user/new_password.html''],
     [''user/settings/profile.html'', ''user/settings/common.inc.html''],
     [''user/settings/notifications.html'', ''user/settings/common.inc.html''],
     [''user/settings/keys.html'', ''user/settings/common.inc.html''],
     [''home/dashboard.html''],
     [''builds/builds.html'', ''builds/build.inc.html''],
     [''coverage/coverage.html''],
     [''error/error.html'', ''error/common.html''],
     [''oauth-provider/authorize.html''],
     [''app_global.html'']]"

definition commonTemplates_layout :: "string list" where
  "commonTemplates_layout = [''common.html'', ''layout.html'', ''nav.html'', ''footer.html'']"

definition standaloneTemplates_sets :: "string list list" where
  "standaloneTemplates_sets = [[''def/popover.html'']]"

definition standaloneTemplates_layout :: "string list" where
  "standaloneTemplates_layout = [''common.html'']"

definition repoTemplates ::
  "scheduler \<Rightarrow> 'tmpl htmpl \<Rightarrow> filesystem \<Rightarrow> 'tmpl templates \<Rightarrow> 'tmpl startup" where
  "repoTemplates sched H Data templates =
     parseHTMLTemplates sched H Data repoTemplates_sets (Some repoTemplates_layout) templates"

definition commonTemplates ::
  "scheduler \<Rightarrow> 'tmpl htmpl \<Rightarrow> filesystem \<Rightarrow> 'tmpl templates \<Rightarrow> 'tmpl startup" where
  "commonTemplates sched H Data templates =
     parseHTMLTemplates sched H Data commonTemplates_sets (Some commonTemplates_layout)
       templates"

definition standaloneTemplates ::
  "scheduler \<Rightarrow> 'tmpl htmpl \<Rightarrow> filesystem \<Rightarrow> 'tmpl templates \<Rightarrow> 'tmpl startup" where
  "standaloneTemplates sched H Data templates =
     parseHTMLTemplates sched H Data standaloneTemplates_sets
       (Some standaloneTemplates_layout) templates"

text \<open>
  \<open>Load\<close> runs the three groups one after the other. Each call returns nil when it
  returns at all, so the \<open>log.Fatal(err)\<close> branches of \<open>Load\<close> are never taken; the
  process ends inside a goroutine or not at all.
\<close>

definition Load ::
  "scheduler \<Rightarrow> 'tmpl htmpl \<Rightarrow> filesystem \<Rightarrow> 'tmpl templates \<Rightarrow> 'tmpl startup" where
  "Load sched H Data templates =
     (case repoTemplates sched H Data templates of
        Aborted f r \<Rightarrow> Aborted f r
      | Completed r1 \<Rightarrow>
          (case commonTemplates sched H Data r1 of
             Aborted f r \<Rightarrow> Aborted f r
           | Completed r2 \<Rightarrow> standaloneTemplates sched H Data r2))"

text \<open>
  The tasks \<open>Load\<close> starts, each with its layout appended: the declared template sets.
\<close>

definition declared_tasks :: "string list list" where
  "declared_tasks =
     map (with_layout (Some repoTemplates_layout)) repoTemplates_sets
     @ map (with_layout (Some commonTemplates_layout)) commonTemplates_sets
     @ map (with_layout (Some standaloneTemplates_layout)) standaloneTemplates_sets"

text \<open>The three groups of tasks, one for each call \<open>Load\<close> makes.\<close>

definition repo_tasks :: "string list list" where
  "repo_tasks = map (with_layout (Some repoTemplates_layout)) repoTemplates_sets"

definition common_tasks :: "string list list" where
  "common_tasks = map (with_layout (Some commonTemplates_layout)) commonTemplates_sets"

definition standalone_tasks :: "string list list" where
  "standalone_tasks = map (with_layout (Some standaloneTemplates_layout)) standaloneTemplates_sets"

text \<open>The registry a loading process has, completed or not.\<close>

definition registry_of :: "'tmpl startup \<Rightarrow> 'tmpl templates" where
  "registry_of s = (case s of Completed T \<Rightarrow> T | Aborted f T \<Rightarrow> T)"

text \<open>
  A fragment cannot be fetched: \<open>Open\<close> fails (the asset is missing) or \<open>ReadAll\<close> fails.
\<close>

definition fetch_fails :: "filesystem \<Rightarrow> string \<Rightarrow> bool" where
  "fetch_fails Data tname =
     (case Data (''/'' @ tname) of
        Inl err \<Rightarrow> True
      | Inr f \<Rightarrow> (case ReadAll f of Inl err \<Rightarrow> True | Inr tmpl \<Rightarrow> False))"

subsection \<open>Library functions used by Exec\<close>

text \<open>\<open>strings.Contains(s, substr)\<close>: does \<open>substr\<close> occur in \<open>s\<close> as a contiguous run.\<close>

fun strings_Contains :: "string \<Rightarrow> string \<Rightarrow> bool" where
  "strings_Contains [] substr = (substr = [])"
| "strings_Contains (c # s) substr = (prefix substr (c # s) \<or> strings_Contains s substr)"

text \<open>
  \<open>textproto.CanonicalMIMEHeaderKey\<close>: a key made of header token bytes gets its first
  letter and every letter after a hyphen in upper case and all other letters in lower
  case; any other key is returned as it is.
\<close>

definition validHeaderFieldByte :: "char \<Rightarrow> bool" where
  "validHeaderFieldByte c =
     (let n = (of_char c :: nat) in
        (48 \<le> n \<and> n \<le> 57) \<or> (65 \<le> n \<and> n \<le> 90) \<or> (97 \<le> n \<and> n \<le> 122)
        \<or> n \<in> {33, 35, 36, 37, 38, 39, 42, 43, 45, 46, 94, 95, 96, 124, 126})"

fun canonical_bytes :: "bool \<Rightarrow> string \<Rightarrow> string" where
  "canonical_bytes upper [] = []"
| "canonical_bytes upper (c # cs) =
     (let n = (of_char c :: nat);
          c' = (if upper \<and> 97 \<le> n \<and> n \<le> 122 then char_of (n - 32)
                else if \<not> upper \<and> 65 \<le> n \<and> n \<le> 90 then char_of (n + 32)
                else c)
      in c' # canonical_bytes (c' = CHR ''-'') cs)"

definition CanonicalMIMEHeaderKey :: "string \<Rightarrow> string" where
  "CanonicalMIMEHeaderKey s =
     (if list_all validHeaderFieldByte s then canonical_bytes True s else s)"

text \<open>
  \<open>http.Header.Get\<close>: the first value stored under the canonical form of the key, or
  the empty string. \<open>http.Header.Set\<close>: replace the values under the canonical key.
\<close>

definition Header_Get :: "header \<Rightarrow> string \<Rightarrow> string" where
  "Header_Get h key =
     (case h (CanonicalMIMEHeaderKey key) of
        None \<Rightarrow> []
      | Some [] \<Rightarrow> []
      | Some (v # _) \<Rightarrow> v)"

definition Header_Set :: "header \<Rightarrow> string \<Rightarrow> string \<Rightarrow> header" where
  "Header_Set h key val = h(CanonicalMIMEHeaderKey key \<mapsto> [val])"

text \<open>\<open>strconv.Itoa\<close>: the decimal form of an integer.\<close>

fun decimal :: "nat \<Rightarrow> string" where
  "decimal n =
     (if n < 10 then [char_of (48 + n)] else decimal (n div 10) @ [char_of (48 + n mod 10)])"

definition Itoa :: "int \<Rightarrow> string" where
  "Itoa i = (if i < 0 then CHR ''-'' # decimal (nat (- i)) else decimal (nat i))"

definition StatusNotModified :: int where
  "StatusNotModified = 304"

subsection \<open>Reflection on the page data\<close>

text \<open>
  A \<open>reflect.Value\<close> as far as \<open>Exec\<close> uses it: the zero Value (\<open>IsValid\<close> is false), a
  struct, one field of a struct, or some value that is not a struct.
\<close>

datatype reflect_Value =
    ZeroValue
  | StructValue "(string \<times> field_value) list"
  | FieldValue field_value
  | NonStructValue

text \<open>
  \<open>reflect.ValueOf(data).Elem()\<close> panics unless \<open>data\<close> holds a pointer (or interface);
  on a nil pointer it returns the zero Value.
\<close>

fun ValueOf_Elem :: "page_data \<Rightarrow> reflect_Value outcome" where
  "ValueOf_Elem NilData = Panicked ''reflect: call of reflect.Value.Elem on zero Value''"
| "ValueOf_Elem NonPointer = Panicked ''reflect: call of reflect.Value.Elem on struct Value''"
| "ValueOf_Elem NilPointer = Returned ZeroValue"
| "ValueOf_Elem PointerToNonStruct = Returned NonStructValue"
| "ValueOf_Elem (PointerToStruct flds) = Returned (StructValue flds)"

text \<open>
  \<open>v.FieldByName(name)\<close> panics unless \<open>v\<close> is a struct; it returns the zero Value when
  the struct has no field of that name.
\<close>

fun FieldByName :: "reflect_Value \<Rightarrow> string \<Rightarrow> reflect_Value outcome" where
  "FieldByName (StructValue flds) name =
     Returned (case map_of flds name of None \<Rightarrow> ZeroValue | Some v \<Rightarrow> FieldValue v)"
| "FieldByName v name = Panicked ''reflect: call of reflect.Value.FieldByName on non-struct Value''"

fun IsValid :: "reflect_Value \<Rightarrow> bool" where
  "IsValid ZeroValue = False"
| "IsValid v = True"

text \<open>\<open>v.Interface()\<close> panics on the zero Value.\<close>

fun Interface :: "reflect_Value \<Rightarrow> field_value outcome" where
  "Interface (FieldValue x) = Returned x"
| "Interface ZeroValue = Panicked ''reflect: call of reflect.Value.Interface on zero Value''"
| "Interface v = Returned (VOther ''struct'')"

text \<open>
  The type assertions \<open>x.(Common)\<close> and \<open>x.(error)\<close>: each panics when the dynamic value
  is nil or of another type.
\<close>

fun assert_Common :: "field_value \<Rightarrow> Common outcome" where
  "assert_Common (VCommon c) = Returned c"
| "assert_Common VNil = Panicked ''interface conversion: interface is nil, not tmpl.Common''"
| "assert_Common x = Panicked ''interface conversion: interface {} is not tmpl.Common''"

text \<open>The result of \<open>x.(error)\<close> is given by the text its \<open>Error()\<close> method returns.\<close>

fun assert_error :: "field_value \<Rightarrow> string outcome" where
  "assert_error (VError msg) = Returned msg"
| "assert_error VNil = Panicked ''interface conversion: interface is nil, not error''"
| "assert_error x = Panicked ''interface conversion: interface {} is not error''"

text \<open>
  \<open>field.Set(v)\<close> on the field \<open>Common\<close> of the struct behind the pointer: the field is
  replaced where it stands.
\<close>

definition Set_field :: "string \<Rightarrow> field_value \<Rightarrow> page_data \<Rightarrow> page_data" where
  "Set_field name v data =
     (case data of PointerToStruct flds \<Rightarrow> PointerToStruct (AList.update name v flds)
      | _ \<Rightarrow> data)"

subsection \<open>What Exec gets from other packages\<close>

text \<open>
  Each function \<open>Exec\<close> calls in another package, under the name it has in the Go text.
  \<open>appauth_ReadSessionCookie\<close> returns the pair \<open>(sess, err)\<close>.
\<close>

record env =
  httpctx_FromRequest :: "Request \<Rightarrow> Context"
  handlerutil_UserFromRequest :: "Request \<Rightarrow> User option"
  conf_AppURL :: "Context \<Rightarrow> url"
  appauth_ReadSessionCookie :: "Request \<Rightarrow> string option \<times> error option"
  url_ResolveReference :: "url \<Rightarrow> url \<Rightarrow> url"
  canonicalurl_FromURL :: "url \<Rightarrow> url"
  returnto_BestGuess :: "Request \<Rightarrow> string \<times> error option"
  randstring_NewLen :: "nat \<Rightarrow> string"
  handlerutil_FullUserFromRequest :: "Request \<Rightarrow> User option"
  handlerutil_EmailsFromRequest :: "Request \<Rightarrow> string list option"
  nosurf_Token :: "Request \<Rightarrow> string"
  httpctx_RouteName :: "Request \<Rightarrow> string"
  url_Query :: "url \<Rightarrow> (string \<times> string list) list"
  traceutil_SpanID :: "Request \<Rightarrow> nat"
  mux_Vars :: "Request \<Rightarrow> (string \<times> string) list"
  handlerutil_DebugMode :: "Request \<Rightarrow> bool"
  appconf_Flags_DisableExternalLinks :: bool
  feature_Features :: "string list"

record UserEvent =
  Event_Type :: string
  Event_Service :: string
  Event_Method :: string
  Event_Result :: string
  Event_URL :: string
  Event_UID :: int
  Event_Message :: string

text \<open>The two logging calls of \<open>Exec\<close>, recorded in the order they are made.\<close>

datatype log_entry =
    LogEvent Context UserEvent
  | LogPageView Context "User option" Request

subsection \<open>The response buffer\<close>

text \<open>
  Modelled from the spec: \<open>httputil.ResponseBuffer\<close> is not among the sources. The
  spec describes it as an in-memory response buffer that holds the headers, the status
  line and the body, and whose content is flushed to the real response sink in one
  operation. The spec gives the flush no failure of its own, so \<open>WriteTo\<close> returns nil.
  The response sink is represented by the responses flushed to it so far: it has
  received zero bytes as long as that list has not grown.
\<close>

record ResponseBuffer =
  rb_header :: header
  rb_status :: int
  rb_body :: string

type_synonym ResponseWriter = "ResponseBuffer list"

definition zero_ResponseBuffer :: ResponseBuffer where
  "zero_ResponseBuffer = \<lparr>rb_header = Map.empty, rb_status = 0, rb_body = []\<rparr>"

definition WriteHeader :: "int \<Rightarrow> ResponseBuffer \<Rightarrow> ResponseBuffer" where
  "WriteHeader status bw = bw\<lparr>rb_status := status\<rparr>"

definition Write :: "string \<Rightarrow> ResponseBuffer \<Rightarrow> ResponseBuffer" where
  "Write bytes bw = bw\<lparr>rb_body := rb_body bw @ bytes\<rparr>"

definition WriteTo :: "ResponseBuffer \<Rightarrow> ResponseWriter \<Rightarrow> ResponseWriter \<times> error option" where
  "WriteTo bw resp = (resp @ [bw], None)"

subsection \<open>Exec\<close>

text \<open>
  The first statements of \<open>Exec\<close>: the application event, with the user's id when the
  request has a user.
\<close>

definition appEvent_of :: "env \<Rightarrow> Request \<Rightarrow> string \<Rightarrow> int \<Rightarrow> UserEvent" where
  "appEvent_of E req name status =
     (let ctx = httpctx_FromRequest E req;
          currentUser = handlerutil_UserFromRequest E req;
          appEvent = \<lparr>Event_Type = ''app'', Event_Service = conf_AppURL E ctx,
                      Event_Method = name, Event_Result = Itoa status,
                      Event_URL = req_URL req, Event_UID = 0, Event_Message = []\<rparr>
      in case currentUser of
           None \<Rightarrow> appEvent
         | Some u \<Rightarrow> appEvent\<lparr>Event_UID := UID u\<rparr>)"

text \<open>
  The derived cache-control value: \<open>no-cache\<close> when the request's own header contains
  \<open>no-cache\<close> or \<open>max-age=0\<close>, and the zero value of the variable otherwise.
\<close>

definition cacheControl_of :: "Request \<Rightarrow> string" where
  "cacheControl_of req =
     (let cc = Header_Get (req_Header req) ''cache-control''
      in if strings_Contains cc ''no-cache'' \<or> strings_Contains cc ''max-age=0''
         then ''no-cache'' else [])"

text \<open>
  The composite literal \<open>Common{...}\<close> that \<open>Exec\<close> stores into the page data. The fields
  it does not mention (\<open>HostName\<close>, \<open>HideSearch\<close>) get their zero values.
\<close>

definition Common_literal ::
  "env \<Rightarrow> Request \<Rightarrow> string \<Rightarrow> string option \<Rightarrow> url \<Rightarrow> url option \<Rightarrow> string \<Rightarrow> string \<Rightarrow>
   string \<Rightarrow> Common \<Rightarrow> Common" where
  "Common_literal E req name sess currentURL canonicalURL returnTo errorID cacheControl
     existingCommon =
     \<lparr>RequestHost = req_Host req,
      Session = sess,
      CSRFToken = nosurf_Token E req,
      CurrentUser = handlerutil_FullUserFromRequest E req,
      UserEmails = handlerutil_EmailsFromRequest E req,
      CurrentRoute = httpctx_RouteName E req,
      CurrentURI = Some (req_URL req),
      CurrentURL = Some currentURL,
      CurrentQuery = url_Query E (req_URL req),
      CurrentSpanID = traceutil_SpanID E req,
      TemplateName = name,
      AppURL = Some (conf_AppURL E (httpctx_FromRequest E req)),
      CanonicalURL = canonicalURL,
      HostName = [],
      Ctx = Some (httpctx_FromRequest E req),
      CurrentRouteVars = mux_Vars E req,
      Debug = handlerutil_DebugMode E req,
      ReturnTo = returnTo,
      DisableExternalLinks = appconf_Flags_DisableExternalLinks E,
      Features = feature_Features E,
      ErrorID = errorID,
      CacheControl = cacheControl,
      HideMOTD = HideMOTD existingCommon,
      HideSearch = False\<rparr>"

text \<open>
  The block \<open>if errField.IsValid() { ... }\<close>: the error id and the event with its
  message, or the panic of the type assertion.
\<close>

definition errorID_of ::
  "env \<Rightarrow> reflect_Value \<Rightarrow> UserEvent \<Rightarrow> (string \<times> UserEvent) outcome" where
  "errorID_of E errField appEvent =
     (if IsValid errField then
        (let errorID = randstring_NewLen E 6 in
         and_then (Interface errField) (\<lambda>x.
         and_then (assert_error x) (\<lambda>msg.
         Returned (errorID,
           appEvent\<lparr>Event_Message := ''ErrorID:'' @ errorID @ '' Msg:'' @ msg\<rparr>))))
      else Returned ([], appEvent))"

text \<open>
  The block \<open>if data != nil { ... }\<close>. It returns the session error, panics, or yields
  the page data with the new \<open>Common\<close> stored in it, together with the event.
\<close>

definition inject_Common ::
  "env \<Rightarrow> Request \<Rightarrow> string \<Rightarrow> UserEvent \<Rightarrow> page_data \<Rightarrow>
   (error + page_data \<times> UserEvent) outcome" where
  "inject_Common E req name appEvent data =
     (let (sess, err) = appauth_ReadSessionCookie E req in
      if err \<noteq> None \<and> err \<noteq> Some ErrNoSession then Returned (Inl (the err))
      else
        and_then (ValueOf_Elem data) (\<lambda>elem.
        and_then (FieldByName elem ''Common'') (\<lambda>field.
        and_then (Interface field) (\<lambda>x.
        and_then (assert_Common x) (\<lambda>existingCommon.
          let currentURL =
                url_ResolveReference E (conf_AppURL E (httpctx_FromRequest E req)) (req_URL req);
              canonicalURL =
                (case CanonicalURL existingCommon of
                   None \<Rightarrow> Some (canonicalurl_FromURL E currentURL)
                 | Some u \<Rightarrow> Some u);
              returnTo = fst (returnto_BestGuess E req)
          in
            and_then (FieldByName elem ''Err'') (\<lambda>errField.
            and_then (errorID_of E errField appEvent) (\<lambda>(errorID, appEvent').
              Returned (Inr
                (Set_field ''Common''
                   (VCommon (Common_literal E req name sess currentURL canonicalURL returnTo
                      errorID (cacheControl_of req) existingCommon))
                   data,
                 appEvent')))))))))"

text \<open>
  The buffer as it stands after \<open>bw.WriteHeader(status)\<close>: the caller's header entries
  copied key by key, the default content type when \<open>Get\<close> finds none, and the status.
\<close>

definition buffered_head :: "header \<Rightarrow> int \<Rightarrow> ResponseBuffer" where
  "buffered_head hdr status =
     (let bw = zero_ResponseBuffer\<lparr>rb_header := hdr\<rparr>;
          bw = (if Header_Get (rb_header bw) ''content-type'' = []
                then bw\<lparr>rb_header :=
                       Header_Set (rb_header bw) ''Content-Type'' ''text/html; charset=utf-8''\<rparr>
                else bw)
      in WriteHeader status bw)"

definition executeTemplateBase ::
  "'tmpl htmpl \<Rightarrow> 'tmpl templates \<Rightarrow> ResponseBuffer \<Rightarrow> string \<Rightarrow> page_data \<Rightarrow>
   ResponseBuffer \<times> error option" where
  "executeTemplateBase H templates w templateName data =
     (case Get templates templateName of
        None \<Rightarrow> (w, Some (Error (''Template '' @ templateName @ '' not found'')))
      | Some t \<Rightarrow>
          (case htmpl_Execute H t data of (bytes, err) \<Rightarrow> (Write bytes w, err)))"

text \<open>
  What one call of \<open>Exec\<close> leaves behind: how the call ended, what the response sink has
  received, the page data behind the caller's pointer, and the log entries made.
\<close>

record exec_result =
  returned :: "error option outcome"
  sink :: ResponseWriter
  pageData :: page_data
  logged :: "log_entry list"

text \<open>
  The rest of \<open>Exec\<close>, after the page data block: log, buffer, stop on 304, execute, and
  flush only when the execution returned no error.
\<close>

definition render ::
  "env \<Rightarrow> 'tmpl htmpl \<Rightarrow> 'tmpl templates \<Rightarrow> Request \<Rightarrow> ResponseWriter \<Rightarrow> string \<Rightarrow> int \<Rightarrow>
   header \<Rightarrow> page_data \<Rightarrow> UserEvent \<Rightarrow> exec_result" where
  "render E H templates req resp name status hdr data appEvent =
     (let ctx = httpctx_FromRequest E req;
          logs = [LogEvent ctx appEvent,
                  LogPageView ctx (handlerutil_UserFromRequest E req) req];
          bw = buffered_head hdr status
      in if status = StatusNotModified
         then \<lparr>returned = Returned None, sink = resp, pageData = data, logged = logs\<rparr>
         else
           (case executeTemplateBase H templates bw name data of
              (bw', Some err) \<Rightarrow>
                \<lparr>returned = Returned (Some err), sink = resp, pageData = data, logged = logs\<rparr>
            | (bw', None) \<Rightarrow>
                (case WriteTo bw' resp of (resp', err) \<Rightarrow>
                   \<lparr>returned = Returned err, sink = resp', pageData = data, logged = logs\<rparr>)))"

definition Exec ::
  "env \<Rightarrow> 'tmpl htmpl \<Rightarrow> 'tmpl templates \<Rightarrow> Request \<Rightarrow> ResponseWriter \<Rightarrow> string \<Rightarrow> int \<Rightarrow>
   header \<Rightarrow> page_data \<Rightarrow> exec_result" where
  "Exec E H templates req resp name status hdr data =
     (let appEvent = appEvent_of E req name status
      in if data \<noteq> NilData then
           (case inject_Common E req name appEvent data of
              Panicked p \<Rightarrow>
                \<lparr>returned = Panicked p, sink = resp, pageData = data, logged = []\<rparr>
            | Returned (Inl err) \<Rightarrow>
                \<lparr>returned = Returned (Some err), sink = resp, pageData = data, logged = []\<rparr>
            | Returned (Inr (data', appEvent')) \<Rightarrow>
                render E H templates req resp name status hdr data' appEvent')
         else render E H templates req resp name status hdr data appEvent)"

subsection \<open>Reading a call of Exec\<close>

text \<open>
  The \<open>Common\<close> value a page data holds in its field \<open>Common\<close>, if it is a pointer to a
  struct with such a field holding such a value.
\<close>

definition Common_of :: "page_data \<Rightarrow> Common option" where
  "Common_of data =
     (case data of
        PointerToStruct flds \<Rightarrow>
          (case map_of flds ''Common'' of Some (VCommon c) \<Rightarrow> Some c | _ \<Rightarrow> None)
      | _ \<Rightarrow> None)"

text \<open>The struct has no field \<open>Err\<close>, or the field holds a non-nil error.\<close>

definition Err_ok :: "page_data \<Rightarrow> bool" where
  "Err_ok data =
     (case data of
        PointerToStruct flds \<Rightarrow>
          (case map_of flds ''Err'' of None \<Rightarrow> True | Some (VError msg) \<Rightarrow> True | _ \<Rightarrow> False)
      | _ \<Rightarrow> False)"

text \<open>The session read failed with an error other than \<open>ErrNoSession\<close>.\<close>

definition session_failed :: "env \<Rightarrow> Request \<Rightarrow> bool" where
  "session_failed E req =
     (case snd (appauth_ReadSessionCookie E req) of
        None \<Rightarrow> False
      | Some err \<Rightarrow> err \<noteq> ErrNoSession)"

text \<open>\<open>conf.AppURL(ctx).ResolveReference(req.URL)\<close>, the value of \<open>currentURL\<close>.\<close>

definition currentURL_of :: "env \<Rightarrow> Request \<Rightarrow> url" where
  "currentURL_of E req =
     url_ResolveReference E (conf_AppURL E (httpctx_FromRequest E req)) (req_URL req)"

subsection \<open>A small instance\<close>

text \<open>
  A concrete environment, request, template engine and asset file system, on which the
  theorems below are instantiated. The engine keeps the text parsed so far; a text
  containing \<open>{{bad\<close> does not parse, a definition is found when its name occurs in the
  text, and executing a text containing \<open>{{panic}}\<close> fails after writing some bytes.
\<close>

definition example_env :: env where
  "example_env =
     \<lparr>httpctx_FromRequest = (\<lambda>req. ''ctx''),
      handlerutil_UserFromRequest = (\<lambda>req. Some \<lparr>UID = 7, Login = ''alice''\<rparr>),
      conf_AppURL = (\<lambda>ctx. ''http://app.example''),
      appauth_ReadSessionCookie = (\<lambda>req. (None, Some ErrNoSession)),
      url_ResolveReference = (\<lambda>base ref. base @ ref),
      canonicalurl_FromURL = (\<lambda>u. u @ ''?canonical''),
      returnto_BestGuess = (\<lambda>req. (req_URL req, None)),
      randstring_NewLen = (\<lambda>n. replicate n (CHR ''r'')),
      handlerutil_FullUserFromRequest = (\<lambda>req. Some \<lparr>UID = 7, Login = ''alice''\<rparr>),
      handlerutil_EmailsFromRequest = (\<lambda>req. Some [''alice@example.org'']),
      nosurf_Token = (\<lambda>req. ''csrf''),
      httpctx_RouteName = (\<lambda>req. ''home''),
      url_Query = (\<lambda>u. []),
      traceutil_SpanID = (\<lambda>req. 1),
      mux_Vars = (\<lambda>req. []),
      handlerutil_DebugMode = (\<lambda>req. False),
      appconf_Flags_DisableExternalLinks = False,
      feature_Features = []\<rparr>"

text \<open>The same environment with a session store that fails.\<close>

definition failing_env :: env where
  "failing_env =
     example_env\<lparr>appauth_ReadSessionCookie :=
       (\<lambda>req. (None, Some (Error ''session store unavailable'')))\<rparr>"

definition example_req :: Request where
  "example_req =
     \<lparr>req_URL = ''/home'', req_Host = ''app.example'',
      req_Header = [''Cache-Control'' \<mapsto> [''max-age=0, private'']]\<rparr>"

definition example_htmpl :: "string htmpl" where
  "example_htmpl =
     \<lparr>htmpl_New = [],
      htmpl_Parse = (\<lambda>t text. if strings_Contains text ''{{bad''
                                then Inl (Error ''unexpected bad'') else Inr (t @ text)),
      htmpl_Lookup = (\<lambda>t name. if strings_Contains t name then Some t else None),
      htmpl_Execute = (\<lambda>t data. if strings_Contains t ''{{panic}}''
                                  then (''<html>'', Some (Error ''helper panicked''))
                                  else (t, None))\<rparr>"

definition example_page :: string where
  "example_page = ''{{define ROOT}}page{{end}}''"

definition example_Data :: filesystem where
  "example_Data path =
     (if path = ''/missing.html'' then Inl (Error ''file does not exist'')
      else if path = ''/unreadable.html'' then Inr (Inl (Error ''read error''))
      else if path = ''/bad.html'' then Inr (Inr ''{{bad'')
      else if path = ''/noroot.html'' then Inr (Inr ''<p>fragment</p>'')
      else Inr (Inr example_page))"

definition example_templates :: "string templates" where
  "example_templates =
     [''page/home.html'' \<mapsto> ''{{define ROOT}}page{{end}}'',
      ''page/broken.html'' \<mapsto> ''{{define ROOT}}{{panic}}{{end}}'']"

text \<open>Page data of the right shape: a \<open>Common\<close> the caller has partly filled in.\<close>

definition example_Common :: Common where
  "example_Common =
     \<lparr>RequestHost = ''stale.example'', Session = Some ''stale'', CSRFToken = ''stale'',
      CurrentUser = None, UserEmails = None, CurrentRoute = ''stale'', CurrentURI = None,
      CurrentURL = None, CurrentQuery = [], CurrentSpanID = 99, TemplateName = ''stale'',
      AppURL = None, CanonicalURL = None, HostName = ''stale'', Ctx = None,
      CurrentRouteVars = [(''stale'', ''stale'')], Debug = True, ReturnTo = ''stale'',
      DisableExternalLinks = True, Features = [''stale''], ErrorID = ''stale'',
      CacheControl = ''stale'', HideMOTD = True, HideSearch = True\<rparr>"

definition example_data :: page_data where
  "example_data = PointerToStruct [(''Title'', VOther ''Home''), (''Common'', VCommon example_Common)]"


definition example_data_canonical :: page_data where
  "example_data_canonical =
     PointerToStruct
       [(''Common'', VCommon (example_Common\<lparr>CanonicalURL := Some ''http://caller.example/x''\<rparr>))]"

text \<open>Page data whose field \<open>Err\<close> is there and holds the nil error.\<close>

definition example_data_nil_Err :: page_data where
  "example_data_nil_Err =
     PointerToStruct [(''Common'', VCommon example_Common), (''Err'', VNil)]"


section \<open>Properties\<close>

subsection \<open>Library functions and the page data block\<close>

lemma strings_Contains_sublist: "strings_Contains s sub \<longleftrightarrow> sublist sub s"
  by (induction s) (auto simp: sublist_Cons_right)

lemma canonical_cache_control: "CanonicalMIMEHeaderKey ''cache-control'' = ''Cache-Control''"
  by code_simp

lemma canonical_content_type: "CanonicalMIMEHeaderKey ''content-type'' = ''Content-Type''"
  by code_simp

lemma canonical_Content_Type: "CanonicalMIMEHeaderKey ''Content-Type'' = ''Content-Type''"
  by code_simp

lemma pageData_render:
  "pageData (render E H templates req resp name status hdr data ev) = data"
  by (simp add: render_def Let_def WriteTo_def split: prod.splits option.splits)

lemma Common_of_SomeD:
  "Common_of data = Some c0 \<Longrightarrow>
     \<exists>flds. data = PointerToStruct flds \<and> map_of flds ''Common'' = Some (VCommon c0)"
  by (auto simp: Common_of_def split: page_data.splits option.splits field_value.splits)

lemma inject_Common_ok:
  assumes sess: "\<not> session_failed E req"
    and com: "Common_of data = Some c0"
    and err: "Err_ok data"
  shows "\<exists>flds ev'. data = PointerToStruct flds \<and>
     inject_Common E req name ev data =
       Returned (Inr (PointerToStruct (AList.update ''Common''
          (VCommon (Common_literal E req name (fst (appauth_ReadSessionCookie E req))
             (currentURL_of E req)
             (case CanonicalURL c0 of None \<Rightarrow> Some (canonicalurl_FromURL E (currentURL_of E req))
                | Some u \<Rightarrow> Some u)
             (fst (returnto_BestGuess E req))
             (if map_of flds ''Err'' = None then [] else randstring_NewLen E 6)
             (cacheControl_of req) c0)) flds), ev'))"
proof -
  from com obtain flds where d: "data = PointerToStruct flds"
    and c: "map_of flds ''Common'' = Some (VCommon c0)"
    by (blast dest: Common_of_SomeD)
  obtain s e where r: "appauth_ReadSessionCookie E req = (s, e)" by force
  from sess r have e: "e = None \<or> e = Some ErrNoSession"
    by (auto simp: session_failed_def split: option.splits)
  from err d have "map_of flds ''Err'' = None \<or> (\<exists>msg. map_of flds ''Err'' = Some (VError msg))"
    by (auto simp: Err_ok_def split: option.splits field_value.splits)
  then show ?thesis
    using d c r e
    by (auto simp: inject_Common_def errorID_of_def Set_field_def currentURL_of_def Let_def
        split: option.splits)
qed

text \<open>The page data after a call whose page data block runs to its end.\<close>

lemma Exec_injects:
  assumes "\<not> session_failed E req" and "Common_of data = Some c0" and "Err_ok data"
  shows "\<exists>flds. data = PointerToStruct flds \<and>
     Common_of (pageData (Exec E H templates req resp name status hdr data)) =
       Some (Common_literal E req name (fst (appauth_ReadSessionCookie E req))
             (currentURL_of E req)
             (case CanonicalURL c0 of None \<Rightarrow> Some (canonicalurl_FromURL E (currentURL_of E req))
                | Some u \<Rightarrow> Some u)
             (fst (returnto_BestGuess E req))
             (if map_of flds ''Err'' = None then [] else randstring_NewLen E 6)
             (cacheControl_of req) c0)"
proof -
  from inject_Common_ok [OF assms, of name "appEvent_of E req name status"]
  obtain flds ev' where d: "data = PointerToStruct flds"
    and i: "inject_Common E req name (appEvent_of E req name status) data =
       Returned (Inr (PointerToStruct (AList.update ''Common''
          (VCommon (Common_literal E req name (fst (appauth_ReadSessionCookie E req))
             (currentURL_of E req)
             (case CanonicalURL c0 of None \<Rightarrow> Some (canonicalurl_FromURL E (currentURL_of E req))
                | Some u \<Rightarrow> Some u)
             (fst (returnto_BestGuess E req))
             (if map_of flds ''Err'' = None then [] else randstring_NewLen E 6)
             (cacheControl_of req) c0)) flds), ev'))"
    by blast
  show ?thesis
    using d i by (simp add: Exec_def Let_def pageData_render Common_of_def update_conv')
qed

text \<open>How the page data block ends when it does not run to its end.\<close>

lemma inject_Common_session_failed:
  assumes "session_failed E req"
  shows "inject_Common E req name ev data = Returned (Inl (the (snd (appauth_ReadSessionCookie E req))))"
  using assms
  by (auto simp: inject_Common_def session_failed_def split: prod.splits option.splits)

lemma inject_Common_no_Common:
  assumes "\<not> session_failed E req" and "Common_of data = None"
  shows "\<exists>p. inject_Common E req name ev data = Panicked p"
proof -
  obtain s e where r: "appauth_ReadSessionCookie E req = (s, e)" by force
  from assms(1) r have e: "e = None \<or> e = Some ErrNoSession"
    by (auto simp: session_failed_def split: option.splits)
  show ?thesis
  proof (cases data)
    case (PointerToStruct flds)
    show ?thesis
    proof (cases "map_of flds ''Common''")
      case None
      with PointerToStruct r e show ?thesis
        by (auto simp: inject_Common_def)
    next
      case (Some v)
      with assms(2) PointerToStruct have "\<And>c. v \<noteq> VCommon c"
        by (auto simp: Common_of_def)
      then obtain p where "assert_Common v = Panicked p"
        by (cases v) auto
      with Some PointerToStruct r e show ?thesis
        by (auto simp: inject_Common_def)
    qed
  qed (use r e in \<open>auto simp: inject_Common_def\<close>)
qed

lemma inject_Common_bad_Err:
  assumes "\<not> session_failed E req" and "Common_of data = Some c0" and "\<not> Err_ok data"
  shows "\<exists>p. inject_Common E req name ev data = Panicked p"
proof -
  obtain s e where r: "appauth_ReadSessionCookie E req = (s, e)" by force
  from assms(1) r have e: "e = None \<or> e = Some ErrNoSession"
    by (auto simp: session_failed_def split: option.splits)
  from assms(2) obtain flds where d: "data = PointerToStruct flds"
    and c: "map_of flds ''Common'' = Some (VCommon c0)"
    by (blast dest: Common_of_SomeD)
  from assms(3) d obtain v where v: "map_of flds ''Err'' = Some v" and nv: "\<And>m. v \<noteq> VError m"
    by (auto simp: Err_ok_def split: option.splits field_value.splits)
  from nv obtain p where "assert_error v = Panicked p"
    by (cases v) auto
  with d c v r e show ?thesis
    by (auto simp: inject_Common_def errorID_of_def Let_def)
qed

lemma session_failed_iff:
  "appauth_ReadSessionCookie E req = (sess, err) \<Longrightarrow>
     session_failed E req \<longleftrightarrow> (\<exists>e. err = Some e \<and> e \<noteq> ErrNoSession)"
  by (auto simp: session_failed_def split: option.splits)

lemma Exec_session_failed:
  assumes "data \<noteq> NilData" and "session_failed E req"
  shows "Exec E H templates req resp name status hdr data =
     \<lparr>returned = Returned (snd (appauth_ReadSessionCookie E req)), sink = resp,
      pageData = data, logged = []\<rparr>"
proof -
  from assms(2) obtain e where "snd (appauth_ReadSessionCookie E req) = Some e"
    by (auto simp: session_failed_def split: option.splits)
  with assms show ?thesis
    by (simp add: Exec_def Let_def inject_Common_session_failed)
qed

lemma Exec_panics:
  assumes "data \<noteq> NilData" and "inject_Common E req name (appEvent_of E req name status) data = Panicked p"
  shows "Exec E H templates req resp name status hdr data =
     \<lparr>returned = Panicked p, sink = resp, pageData = data, logged = []\<rparr>"
  using assms by (simp add: Exec_def Let_def)

lemma returned_render:
  "\<exists>x. returned (render E H templates req resp name status hdr data ev) = Returned x"
  by (simp add: render_def Let_def WriteTo_def split: prod.splits option.splits)

subsection \<open>The small instance\<close>

lemma example_session_ok: "\<not> session_failed example_env example_req"
  by (simp add: session_failed_def example_env_def)

lemma example_data_Common: "Common_of example_data = Some example_Common"
  by (simp add: Common_of_def example_data_def)

lemma example_data_Err_ok: "Err_ok example_data"
  by (simp add: Err_ok_def example_data_def)

lemma example_cache_control:
  "Header_Get (req_Header example_req) ''cache-control'' = ''max-age=0, private''"
  by (simp add: Header_Get_def example_req_def canonical_cache_control)



lemma failing_session_failed: "session_failed failing_env example_req"
  by (simp add: session_failed_def failing_env_def example_env_def)

subsection \<open>The cache-control value\<close>

text \<open>
  Claim C5. For every request, the derived \<open>CacheControl\<close> is the string \<open>no-cache\<close> when
  the value \<open>Header.Get\<close> gives for the request's cache-control header contains
  \<open>no-cache\<close> or \<open>max-age=0\<close> as a substring, and the empty string otherwise; and this is
  the value of the field \<open>CacheControl\<close> of the \<open>Common\<close> that \<open>Exec\<close> stores into the page
  data. Substring is \<open>sublist\<close> of the list library here, not the function of the model.
\<close>

theorem C5_cacheControl:
  "cacheControl_of req =
     (if sublist ''no-cache'' (Header_Get (req_Header req) ''cache-control'')
         \<or> sublist ''max-age=0'' (Header_Get (req_Header req) ''cache-control'')
      then ''no-cache'' else [])
   \<and> (\<not> session_failed E req \<and> Common_of data \<noteq> None \<and> Err_ok data \<longrightarrow>
        map_option CacheControl
          (Common_of (pageData (Exec E H templates req resp name status hdr data))) =
        Some (cacheControl_of req))"
proof
  show "cacheControl_of req =
     (if sublist ''no-cache'' (Header_Get (req_Header req) ''cache-control'')
         \<or> sublist ''max-age=0'' (Header_Get (req_Header req) ''cache-control'')
      then ''no-cache'' else [])"
    by (simp add: cacheControl_of_def Let_def strings_Contains_sublist)
next
  show "\<not> session_failed E req \<and> Common_of data \<noteq> None \<and> Err_ok data \<longrightarrow>
        map_option CacheControl
          (Common_of (pageData (Exec E H templates req resp name status hdr data))) =
        Some (cacheControl_of req)"
  proof
    assume a: "\<not> session_failed E req \<and> Common_of data \<noteq> None \<and> Err_ok data"
    then obtain c0 where c0: "Common_of data = Some c0" by blast
    from a c0 Exec_injects [of E req data c0 H templates resp name status hdr]
    show "map_option CacheControl
          (Common_of (pageData (Exec E H templates req resp name status hdr data))) =
        Some (cacheControl_of req)"
      by (auto simp: Common_literal_def)
  qed
qed

theorem C5_cacheControl_witness:
  "map_option CacheControl
     (Common_of (pageData
        (Exec example_env example_htmpl example_templates example_req [] ''page/home.html''
           200 Map.empty example_data))) = Some ''no-cache''
   \<and> cacheControl_of (example_req\<lparr>req_Header := [''Cache-Control'' \<mapsto> [''no-cache'']]\<rparr>)
       = ''no-cache''
   \<and> cacheControl_of (example_req\<lparr>req_Header := Map.empty\<rparr>) = []
   \<and> cacheControl_of (example_req\<lparr>req_Header := [''Cache-Control'' \<mapsto> [''max-age=3600'']]\<rparr>)
       = []"
proof -
  have 1: "cacheControl_of example_req = ''no-cache''"
    using C5_cacheControl [of example_req, THEN conjunct1]
    by (simp add: example_cache_control strings_Contains_sublist [symmetric])
  have 2: "map_option CacheControl
     (Common_of (pageData
        (Exec example_env example_htmpl example_templates example_req [] ''page/home.html''
           200 Map.empty example_data))) = Some (cacheControl_of example_req)"
    using C5_cacheControl [of example_req example_env example_data example_htmpl
        example_templates "[]" "''page/home.html''" 200 Map.empty, THEN conjunct2]
    by (simp add: example_session_ok example_data_Common example_data_Err_ok)
  have 3: "cacheControl_of (example_req\<lparr>req_Header := [''Cache-Control'' \<mapsto> [''no-cache'']]\<rparr>)
       = ''no-cache''"
    by (simp add: cacheControl_of_def Header_Get_def canonical_cache_control)
  have 4: "cacheControl_of (example_req\<lparr>req_Header := Map.empty\<rparr>) = []"
    by (simp add: cacheControl_of_def Header_Get_def canonical_cache_control)
  have 5: "cacheControl_of (example_req\<lparr>req_Header := [''Cache-Control'' \<mapsto> [''max-age=3600'']]\<rparr>)
       = []"
    by (simp add: cacheControl_of_def Header_Get_def canonical_cache_control)
  from 1 2 3 4 5 show ?thesis by simp
qed

subsection \<open>The error id\<close>



subsection \<open>What is kept of the caller's Common\<close>

text \<open>
  Claim C3 as stated fails: the caller's \<open>CanonicalURL\<close>, when it is not nil, is kept as
  well; here the caller's value is stored and not the one derived from the request.
\<close>

theorem C3_counterexample:
  "map_option CanonicalURL
     (Common_of (pageData
        (Exec example_env example_htmpl example_templates example_req [] ''page/home.html''
           200 Map.empty example_data_canonical))) = Some (Some ''http://caller.example/x'')
   \<and> canonicalurl_FromURL example_env (currentURL_of example_env example_req)
       = ''http://app.example/home?canonical''"
proof -
  have s: "\<not> session_failed example_env example_req"
    by (simp add: session_failed_def example_env_def)
  have c: "Common_of example_data_canonical =
      Some (example_Common\<lparr>CanonicalURL := Some ''http://caller.example/x''\<rparr>)"
    by (simp add: Common_of_def example_data_canonical_def)
  have e: "Err_ok example_data_canonical"
    by (simp add: Err_ok_def example_data_canonical_def)
  from Exec_injects [OF s c e, of example_htmpl example_templates "[]" "''page/home.html''"
      200 Map.empty]
  have "map_option CanonicalURL
     (Common_of (pageData
        (Exec example_env example_htmpl example_templates example_req [] ''page/home.html''
           200 Map.empty example_data_canonical))) = Some (Some ''http://caller.example/x'')"
    by (auto simp: Common_literal_def)
  moreover have "canonicalurl_FromURL example_env (currentURL_of example_env example_req)
       = ''http://app.example/home?canonical''"
    by (simp add: currentURL_of_def example_env_def example_req_def)
  ultimately show ?thesis by simp
qed

text \<open>
  Claim C3, amended. The stored \<open>Common\<close> keeps the caller's \<open>HideMOTD\<close>, and the
  caller's \<open>CanonicalURL\<close> when that is not nil (otherwise the canonical form of the
  current URL); no other field depends on the caller's \<open>Common\<close>: two calls that differ
  only in the \<open>Common\<close> the caller supplied store values that agree on every field but
  these two.
\<close>

theorem C3_merge:
  assumes "\<not> session_failed E req"
    and "map_of flds ''Common'' = Some (VCommon c1)"
    and "Err_ok (PointerToStruct flds)"
  shows "\<exists>c1' c2'.
     Common_of (pageData
       (Exec E H templates req resp name status hdr (PointerToStruct flds))) = Some c1'
   \<and> Common_of (pageData
       (Exec E H templates req resp name status hdr
          (PointerToStruct (AList.update ''Common'' (VCommon c2) flds)))) = Some c2'
   \<and> HideMOTD c1' = HideMOTD c1
   \<and> CanonicalURL c1' =
       (case CanonicalURL c1 of
          None \<Rightarrow> Some (canonicalurl_FromURL E (currentURL_of E req))
        | Some u \<Rightarrow> Some u)
   \<and> c1'\<lparr>HideMOTD := h, CanonicalURL := u\<rparr> = c2'\<lparr>HideMOTD := h, CanonicalURL := u\<rparr>"
proof -
  let ?flds2 = "AList.update ''Common'' (VCommon c2) flds"
  have c1: "Common_of (PointerToStruct flds) = Some c1"
    using assms(2) by (simp add: Common_of_def)
  have c2: "Common_of (PointerToStruct ?flds2) = Some c2"
    by (simp add: Common_of_def update_conv')
  have e2: "Err_ok (PointerToStruct ?flds2)"
    using assms(3) by (simp add: Err_ok_def update_conv')
  have same: "map_of ?flds2 ''Err'' = map_of flds ''Err''"
    by (simp add: update_conv')
  from Exec_injects [OF assms(1) c1 assms(3), of H templates resp name status hdr]
    Exec_injects [OF assms(1) c2 e2, of H templates resp name status hdr] same
  show ?thesis
    by (auto simp: Common_literal_def)
qed

theorem C3_merge_witness:
  "\<exists>c1' c2'.
     Common_of (pageData
       (Exec example_env example_htmpl example_templates example_req [] ''page/home.html''
          200 Map.empty example_data)) = Some c1'
   \<and> Common_of (pageData
       (Exec example_env example_htmpl example_templates example_req [] ''page/home.html''
          200 Map.empty
          (PointerToStruct [(''Title'', VOther ''Home''),
             (''Common'', VCommon (example_Common\<lparr>RequestHost := ''other'', Debug := False\<rparr>))])))
       = Some c2'
   \<and> HideMOTD c1' = True
   \<and> CanonicalURL c1' = Some ''http://app.example/home?canonical''
   \<and> c1'\<lparr>HideMOTD := False, CanonicalURL := None\<rparr>
       = c2'\<lparr>HideMOTD := False, CanonicalURL := None\<rparr>"
proof -
  have s: "\<not> session_failed example_env example_req"
    by (simp add: session_failed_def example_env_def)
  have m: "map_of [(''Title'', VOther ''Home''), (''Common'', VCommon example_Common)] ''Common''
      = Some (VCommon example_Common)"
    by simp
  have e: "Err_ok (PointerToStruct [(''Title'', VOther ''Home''), (''Common'', VCommon example_Common)])"
    by (simp add: Err_ok_def)
  from C3_merge [OF s m e, where H = example_htmpl and templates = example_templates
      and resp = "[]" and name = "''page/home.html''" and status = 200 and hdr = Map.empty
      and ?c2.0 = "example_Common\<lparr>RequestHost := ''other'', Debug := False\<rparr>"
      and h = False and u = None]
  show ?thesis
    by (simp add: example_data_def example_Common_def currentURL_of_def example_env_def
        example_req_def)
qed

subsection \<open>The session read\<close>

text \<open>
  Claim C6. For every call of \<open>Exec\<close> with page data that is not nil: when the session read
  fails with an error other than \<open>ErrNoSession\<close>, \<open>Exec\<close> returns that error, the page
  data is as it was, nothing has been logged and the response sink has received nothing.
  When the session read gives \<open>ErrNoSession\<close>, the call goes on exactly as if the read had
  given no error, and the \<open>Common\<close> it stores has the session the read returned (nil
  when there is none).
\<close>

theorem C6_session:
  "(data \<noteq> NilData \<and> appauth_ReadSessionCookie E req = (sess, Some err) \<and> err \<noteq> ErrNoSession
      \<longrightarrow> Exec E H templates req resp name status hdr data =
            \<lparr>returned = Returned (Some err), sink = resp, pageData = data, logged = []\<rparr>)
   \<and> (appauth_ReadSessionCookie E req = (sess, Some ErrNoSession)
      \<longrightarrow> Exec E H templates req resp name status hdr data =
            Exec (E\<lparr>appauth_ReadSessionCookie := (\<lambda>r. (sess, None))\<rparr>) H templates req resp
              name status hdr data
          \<and> (Common_of data \<noteq> None \<and> Err_ok data
               \<longrightarrow> map_option Session
                     (Common_of (pageData (Exec E H templates req resp name status hdr data)))
                   = Some sess))"
proof (intro conjI impI)
  assume a: "data \<noteq> NilData \<and> appauth_ReadSessionCookie E req = (sess, Some err) \<and> err \<noteq> ErrNoSession"
  then have "session_failed E req" by (simp add: session_failed_def)
  with a Exec_session_failed [of data E req H templates resp name status hdr]
  show "Exec E H templates req resp name status hdr data =
            \<lparr>returned = Returned (Some err), sink = resp, pageData = data, logged = []\<rparr>"
    by simp
next
  assume a: "appauth_ReadSessionCookie E req = (sess, Some ErrNoSession)"
  let ?E = "E\<lparr>appauth_ReadSessionCookie := (\<lambda>r. (sess, None))\<rparr>"
  have ev: "appEvent_of ?E req name status = appEvent_of E req name status"
    by (simp add: appEvent_of_def)
  have eo: "\<And>f ev. errorID_of ?E f ev = errorID_of E f ev"
    by (simp add: errorID_of_def)
  have cl: "\<And>s cu ca rt ei cc ec. Common_literal ?E req name s cu ca rt ei cc ec
      = Common_literal E req name s cu ca rt ei cc ec"
    by (simp add: Common_literal_def)
  have inj: "\<And>ev. inject_Common ?E req name ev data = inject_Common E req name ev data"
    using a by (simp add: inject_Common_def eo cl Let_def cong: option.case_cong)
  have ren: "\<And>d ev. render ?E H templates req resp name status hdr d ev
      = render E H templates req resp name status hdr d ev"
    by (simp add: render_def)
  show "Exec E H templates req resp name status hdr data =
            Exec ?E H templates req resp name status hdr data"
    by (simp add: Exec_def ev inj ren Let_def split: outcome.splits sum.splits prod.splits)
next
  assume a: "appauth_ReadSessionCookie E req = (sess, Some ErrNoSession)"
    and w: "Common_of data \<noteq> None \<and> Err_ok data"
  from a have s: "\<not> session_failed E req" by (simp add: session_failed_def)
  from w obtain c0 where c0: "Common_of data = Some c0" by blast
  from Exec_injects [OF s c0, of H templates resp name status hdr] w a
  show "map_option Session
          (Common_of (pageData (Exec E H templates req resp name status hdr data)))
        = Some sess"
    by (auto simp: Common_literal_def)
qed

theorem C6_session_witness:
  "Exec failing_env example_htmpl example_templates example_req [] ''page/home.html'' 200
     Map.empty example_data =
     \<lparr>returned = Returned (Some (Error ''session store unavailable'')), sink = [],
      pageData = example_data, logged = []\<rparr>
   \<and> map_option Session
        (Common_of (pageData
           (Exec example_env example_htmpl example_templates example_req [] ''page/home.html''
              200 Map.empty example_data))) = Some None"
proof -
  have 1: "example_data \<noteq> NilData
      \<and> appauth_ReadSessionCookie failing_env example_req
          = (None, Some (Error ''session store unavailable''))
      \<and> Error ''session store unavailable'' \<noteq> ErrNoSession"
    by (simp add: example_data_def failing_env_def example_env_def)
  have 2: "appauth_ReadSessionCookie example_env example_req = (None, Some ErrNoSession)"
    by (simp add: example_env_def)
  have 3: "Common_of example_data \<noteq> None \<and> Err_ok example_data"
    by (simp add: example_data_Common example_data_Err_ok)
  from C6_session [where data = example_data and E = failing_env and req = example_req
      and sess = None and err = "Error ''session store unavailable''" and H = example_htmpl
      and templates = example_templates and resp = "[]" and name = "''page/home.html''"
      and status = 200 and hdr = Map.empty] 1
  have a: "Exec failing_env example_htmpl example_templates example_req [] ''page/home.html'' 200
     Map.empty example_data =
     \<lparr>returned = Returned (Some (Error ''session store unavailable'')), sink = [],
      pageData = example_data, logged = []\<rparr>"
    by blast
  from C6_session [where data = example_data and E = example_env and req = example_req
      and sess = None and H = example_htmpl
      and templates = example_templates and resp = "[]" and name = "''page/home.html''"
      and status = 200 and hdr = Map.empty] 2 3
  have b: "map_option Session
        (Common_of (pageData
           (Exec example_env example_htmpl example_templates example_req [] ''page/home.html''
              200 Map.empty example_data))) = Some None"
    by blast
  from a b show ?thesis by simp
qed

subsection \<open>Page data of the wrong shape\<close>

text \<open>
  Claim C9 as stated fails: the session is read before the page data is inspected, so
  with a failing session read \<open>Exec\<close> returns the session error, also for page data that
  is not a pointer.
\<close>

theorem C9_counterexample:
  "returned (Exec failing_env example_htmpl example_templates example_req []
      ''page/home.html'' 200 Map.empty NonPointer)
   = Returned (Some (Error ''session store unavailable''))"
  using Exec_session_failed [OF _ failing_session_failed, of NonPointer example_htmpl
      example_templates "[]" "''page/home.html''" 200 Map.empty]
  by (simp add: failing_env_def example_env_def)

text \<open>
  Claim C9, amended. For every call of \<open>Exec\<close> with page data that is not nil and a session
  read that does not fail: when the page data is not a pointer to a struct with a field
  \<open>Common\<close> holding a \<open>Common\<close>, \<open>Exec\<close> panics; the page data is as it was, nothing has
  been logged and the response sink has received nothing.
\<close>

theorem C9_panics:
  assumes "\<not> session_failed E req" and "data \<noteq> NilData" and "Common_of data = None"
  shows "\<exists>p. Exec E H templates req resp name status hdr data =
     \<lparr>returned = Panicked p, sink = resp, pageData = data, logged = []\<rparr>"
proof -
  from inject_Common_no_Common [OF assms(1) assms(3)]
  obtain p where "inject_Common E req name (appEvent_of E req name status) data = Panicked p"
    by blast
  with assms(2) show ?thesis
    by (auto simp: Exec_panics)
qed

theorem C9_panics_witness:
  "(\<exists>p. Exec example_env example_htmpl example_templates example_req [] ''page/home.html''
      200 Map.empty NonPointer =
     \<lparr>returned = Panicked p, sink = [], pageData = NonPointer, logged = []\<rparr>)
   \<and> (\<exists>p. Exec example_env example_htmpl example_templates example_req [] ''page/home.html''
      200 Map.empty (PointerToStruct [(''Title'', VOther ''Home'')]) =
     \<lparr>returned = Panicked p, sink = [],
      pageData = PointerToStruct [(''Title'', VOther ''Home'')], logged = []\<rparr>)"
proof -
  have 1: "NonPointer \<noteq> NilData" "Common_of NonPointer = None"
    by (simp_all add: Common_of_def)
  have 2: "PointerToStruct [(''Title'', VOther ''Home'')] \<noteq> NilData"
    "Common_of (PointerToStruct [(''Title'', VOther ''Home'')]) = None"
    by (simp_all add: Common_of_def)
  from C9_panics [OF example_session_ok 1, of example_htmpl example_templates "[]"
      "''page/home.html''" 200 Map.empty]
    C9_panics [OF example_session_ok 2, of example_htmpl example_templates "[]"
      "''page/home.html''" 200 Map.empty]
  show ?thesis by simp
qed

text \<open>
  Claim C10 as stated fails for the same reason: with a failing session read \<open>Exec\<close>
  returns the session error and never looks at the field \<open>Err\<close>.
\<close>

theorem C10_counterexample:
  "returned (Exec failing_env example_htmpl example_templates example_req []
      ''page/home.html'' 500 Map.empty example_data_nil_Err)
   = Returned (Some (Error ''session store unavailable''))"
  using Exec_session_failed [OF _ failing_session_failed, of example_data_nil_Err example_htmpl
      example_templates "[]" "''page/home.html''" 500 Map.empty]
  by (simp add: failing_env_def example_env_def example_data_nil_Err_def)

text \<open>
  Claim C10, amended. For every call of \<open>Exec\<close> whose session read does not fail and whose
  page data is a struct with a field \<open>Err\<close> holding the nil error, \<open>Exec\<close> panics and
  leaves page data, log and response sink as they were. When the field \<open>Common\<close> is of the
  right shape the panic is the one of the type assertion \<open>errField.Interface().(error)\<close>
  on the nil interface, and the same struct without the field \<open>Err\<close> does not make \<open>Exec\<close>
  panic: a field that is there and nil is not treated as a field that is not there.
\<close>

theorem C10_nil_Err:
  assumes "\<not> session_failed E req" and "map_of flds ''Err'' = Some VNil"
  shows "(\<exists>p. Exec E H templates req resp name status hdr (PointerToStruct flds) =
            \<lparr>returned = Panicked p, sink = resp, pageData = PointerToStruct flds, logged = []\<rparr>)
   \<and> (Common_of (PointerToStruct flds) \<noteq> None \<longrightarrow>
        returned (Exec E H templates req resp name status hdr (PointerToStruct flds)) =
          Panicked ''interface conversion: interface is nil, not error''
      \<and> (\<forall>p. returned (Exec E H templates req resp name status hdr
                  (PointerToStruct (AList.delete ''Err'' flds))) \<noteq> Panicked p))"
proof (intro conjI impI)
  have bad: "\<not> Err_ok (PointerToStruct flds)"
    using assms(2) by (simp add: Err_ok_def)
  show "\<exists>p. Exec E H templates req resp name status hdr (PointerToStruct flds) =
            \<lparr>returned = Panicked p, sink = resp, pageData = PointerToStruct flds, logged = []\<rparr>"
  proof (cases "Common_of (PointerToStruct flds)")
    case None
    from inject_Common_no_Common [OF assms(1) None, of name "appEvent_of E req name status"]
    show ?thesis by (auto simp: Exec_panics)
  next
    case (Some c0)
    from inject_Common_bad_Err [OF assms(1) Some bad, of name "appEvent_of E req name status"]
    show ?thesis by (auto simp: Exec_panics)
  qed
next
  assume c: "Common_of (PointerToStruct flds) \<noteq> None"
  then obtain c0 where c0: "map_of flds ''Common'' = Some (VCommon c0)"
    by (auto dest: Common_of_SomeD)
  obtain s e where r: "appauth_ReadSessionCookie E req = (s, e)" by force
  from assms(1) r have e: "e = None \<or> e = Some ErrNoSession"
    by (auto simp: session_failed_def split: option.splits)
  have "inject_Common E req name (appEvent_of E req name status) (PointerToStruct flds)
      = Panicked ''interface conversion: interface is nil, not error''"
    using c0 assms(2) r e
    by (auto simp: inject_Common_def errorID_of_def Let_def)
  then show "returned (Exec E H templates req resp name status hdr (PointerToStruct flds)) =
          Panicked ''interface conversion: interface is nil, not error''"
    by (simp add: Exec_panics)
next
  assume c: "Common_of (PointerToStruct flds) \<noteq> None"
  then obtain c0 where c0: "map_of flds ''Common'' = Some (VCommon c0)"
    by (auto dest: Common_of_SomeD)
  let ?d = "PointerToStruct (AList.delete ''Err'' flds)"
  have c': "Common_of ?d = Some c0"
    using c0 by (simp add: Common_of_def delete_conv')
  have e': "Err_ok ?d"
    by (simp add: Err_ok_def delete_conv')
  from inject_Common_ok [OF assms(1) c' e', of name "appEvent_of E req name status"]
  obtain d' ev' where
    "inject_Common E req name (appEvent_of E req name status) ?d = Returned (Inr (d', ev'))"
    by blast
  then have "Exec E H templates req resp name status hdr ?d =
      render E H templates req resp name status hdr d' ev'"
    by (simp add: Exec_def Let_def)
  with returned_render [of E H templates req resp name status hdr d' ev']
  show "\<forall>p. returned (Exec E H templates req resp name status hdr ?d) \<noteq> Panicked p"
    by auto
qed

theorem C10_nil_Err_witness:
  "returned (Exec example_env example_htmpl example_templates example_req []
      ''page/home.html'' 500 Map.empty example_data_nil_Err)
     = Panicked ''interface conversion: interface is nil, not error''
   \<and> pageData (Exec example_env example_htmpl example_templates example_req []
      ''page/home.html'' 500 Map.empty example_data_nil_Err) = example_data_nil_Err
   \<and> (\<forall>p. returned (Exec example_env example_htmpl example_templates example_req []
      ''page/home.html'' 500 Map.empty (PointerToStruct [(''Common'', VCommon example_Common)]))
        \<noteq> Panicked p)"
proof -
  have m: "map_of [(''Common'', VCommon example_Common), (''Err'', VNil)] ''Err'' = Some VNil"
    by simp
  have c: "Common_of (PointerToStruct [(''Common'', VCommon example_Common), (''Err'', VNil)])
      \<noteq> None"
    by (simp add: Common_of_def)
  have d: "AList.delete ''Err'' [(''Common'', VCommon example_Common), (''Err'', VNil)]
      = [(''Common'', VCommon example_Common)]"
    by (simp add: AList.delete_eq)
  from C10_nil_Err [OF example_session_ok m, of example_htmpl example_templates "[]"
      "''page/home.html''" 500 Map.empty] c d
  show ?thesis
    by (auto simp: example_data_nil_Err_def)
qed

subsection \<open>Rendering: buffer first, flush last\<close>

lemma buffered_head_eq:
  "buffered_head hdr status =
     \<lparr>rb_header = (if Header_Get hdr ''content-type'' = []
                    then hdr(''Content-Type'' \<mapsto> [''text/html; charset=utf-8'']) else hdr),
      rb_status = status, rb_body = []\<rparr>"
  by (simp add: buffered_head_def zero_ResponseBuffer_def WriteHeader_def Header_Set_def
      canonical_Content_Type Let_def)

lemma render_cases:
  assumes "status \<noteq> StatusNotModified"
  shows "(\<exists>t body. Get templates name = Some t \<and> htmpl_Execute H t data = (body, None)
          \<and> returned (render E H templates req resp name status hdr data ev) = Returned None
          \<and> sink (render E H templates req resp name status hdr data ev) =
              resp @ [(buffered_head hdr status)\<lparr>rb_body := body\<rparr>])
       \<or> (sink (render E H templates req resp name status hdr data ev) = resp
          \<and> ((Get templates name = None
               \<and> returned (render E H templates req resp name status hdr data ev) =
                   Returned (Some (Error (''Template '' @ name @ '' not found''))))
             \<or> (\<exists>t body e. Get templates name = Some t
                   \<and> htmpl_Execute H t data = (body, Some e)
                   \<and> returned (render E H templates req resp name status hdr data ev) =
                       Returned (Some e))))"
proof (cases "Get templates name")
  case None
  with assms show ?thesis
    by (simp add: render_def executeTemplateBase_def Let_def)
next
  case (Some t)
  obtain body e where x: "htmpl_Execute H t data = (body, e)" by force
  show ?thesis
  proof (cases e)
    case None
    with assms Some x show ?thesis
      by (simp add: render_def executeTemplateBase_def Let_def WriteTo_def Write_def
          buffered_head_eq)
  next
    case (Some err)
    with assms \<open>Get templates name = Some t\<close> x show ?thesis
      by (simp add: render_def executeTemplateBase_def Let_def)
  qed
qed

text \<open>Every call of \<open>Exec\<close> ends in one of four ways before it reaches the rendering.\<close>

lemma Exec_cases:
  obtains (nil) "data = NilData"
      "Exec E H templates req resp name status hdr data =
         render E H templates req resp name status hdr data (appEvent_of E req name status)"
    | (session) "data \<noteq> NilData" "session_failed E req"
      "Exec E H templates req resp name status hdr data =
         \<lparr>returned = Returned (snd (appauth_ReadSessionCookie E req)), sink = resp,
          pageData = data, logged = []\<rparr>"
    | (panic) p where "data \<noteq> NilData" "\<not> session_failed E req"
      "Common_of data = None \<or> \<not> Err_ok data"
      "Exec E H templates req resp name status hdr data =
         \<lparr>returned = Panicked p, sink = resp, pageData = data, logged = []\<rparr>"
    | (injected) data' ev' where "data \<noteq> NilData" "\<not> session_failed E req"
      "Common_of data \<noteq> None" "Err_ok data"
      "Exec E H templates req resp name status hdr data =
         render E H templates req resp name status hdr data' ev'"
proof (cases "data = NilData")
  case True
  then show ?thesis by (auto intro: nil simp: Exec_def Let_def)
next
  case nn: False
  show ?thesis
  proof (cases "session_failed E req")
    case True
    with nn show ?thesis by (auto intro: session simp: Exec_session_failed)
  next
    case sf: False
    show ?thesis
    proof (cases "Common_of data")
      case None
      from inject_Common_no_Common [OF sf None, of name "appEvent_of E req name status"]
      obtain p where "inject_Common E req name (appEvent_of E req name status) data = Panicked p"
        by blast
      with nn sf None show ?thesis by (auto intro: panic simp: Exec_panics)
    next
      case (Some c0)
      show ?thesis
      proof (cases "Err_ok data")
        case False
        from inject_Common_bad_Err [OF sf Some False, of name "appEvent_of E req name status"]
        obtain p where "inject_Common E req name (appEvent_of E req name status) data = Panicked p"
          by blast
        with nn sf False show ?thesis by (auto intro: panic simp: Exec_panics)
      next
        case True
        from inject_Common_ok [OF sf Some True, of name "appEvent_of E req name status"]
        obtain d' ev' where
          "inject_Common E req name (appEvent_of E req name status) data = Returned (Inr (d', ev'))"
          by blast
        with nn have "Exec E H templates req resp name status hdr data =
            render E H templates req resp name status hdr d' ev'"
          by (simp add: Exec_def Let_def)
        with nn sf Some True show ?thesis by (auto intro: injected)
      qed
    qed
  qed
qed

lemma render_NotModified:
  "render E H templates req resp name StatusNotModified hdr data ev =
     \<lparr>returned = Returned None, sink = resp, pageData = data,
      logged = [LogEvent (httpctx_FromRequest E req) ev,
                LogPageView (httpctx_FromRequest E req) (handlerutil_UserFromRequest E req) req]\<rparr>"
  by (simp add: render_def Let_def)

lemma example_Get_home: "Get example_templates ''page/home.html'' = Some ''{{define ROOT}}page{{end}}''"
  by (simp add: Get_def example_templates_def)

lemma example_Get_broken:
  "Get example_templates ''page/broken.html'' = Some ''{{define ROOT}}{{panic}}{{end}}''"
  by (simp add: Get_def example_templates_def)

lemma example_Get_none: "Get example_templates ''page/none.html'' = None"
  by (simp add: Get_def example_templates_def)

lemma example_Execute_home:
  "htmpl_Execute example_htmpl ''{{define ROOT}}page{{end}}'' data
     = (''{{define ROOT}}page{{end}}'', None)"
  by (simp add: example_htmpl_def)

lemma example_Execute_broken:
  "htmpl_Execute example_htmpl ''{{define ROOT}}{{panic}}{{end}}'' data
     = (''<html>'', Some (Error ''helper panicked''))"
  by (simp add: example_htmpl_def)

text \<open>
  Claim C1 as stated fails: a call need neither succeed nor return an error, since it
  panics on page data of the wrong shape; and the error it returns may be the session
  error, for a template that is registered and would execute. In both cases the response
  sink still receives nothing.
\<close>

theorem C1_counterexample:
  "returned (Exec example_env example_htmpl example_templates example_req []
      ''page/home.html'' 200 Map.empty NonPointer)
     = Panicked ''reflect: call of reflect.Value.Elem on struct Value''
   \<and> returned (Exec failing_env example_htmpl example_templates example_req []
      ''page/home.html'' 200 Map.empty example_data)
     = Returned (Some (Error ''session store unavailable''))
   \<and> Get example_templates ''page/home.html'' = Some ''{{define ROOT}}page{{end}}''"
proof -
  have "inject_Common example_env example_req ''page/home.html''
      (appEvent_of example_env example_req ''page/home.html'' 200) NonPointer
     = Panicked ''reflect: call of reflect.Value.Elem on struct Value''"
    by (simp add: inject_Common_def example_env_def)
  then have 1: "returned (Exec example_env example_htmpl example_templates example_req []
      ''page/home.html'' 200 Map.empty NonPointer)
     = Panicked ''reflect: call of reflect.Value.Elem on struct Value''"
    by (simp add: Exec_panics)
  have 2: "returned (Exec failing_env example_htmpl example_templates example_req []
      ''page/home.html'' 200 Map.empty example_data)
     = Returned (Some (Error ''session store unavailable''))"
    using Exec_session_failed [OF _ failing_session_failed, of example_data example_htmpl
      example_templates "[]" "''page/home.html''" 200 Map.empty]
    by (simp add: failing_env_def example_env_def example_data_def)
  from 1 2 example_Get_home show ?thesis by simp
qed

text \<open>
  Claim C1, amended. For every call of \<open>Exec\<close> with a status other than 304, either the
  call returns nil and the sink has received, in one flush, the buffer holding the
  headers (with the default content type when none was given), the status and the whole
  output of the template; or the response sink has received nothing and the call
  returned the lookup error of an unregistered name, the error of the template's
  execution, or the session error, or it panicked on page data of the wrong shape.
\<close>

theorem C1_flush_or_nothing:
  assumes "status \<noteq> StatusNotModified"
  shows "(\<exists>t body. Get templates name = Some t
            \<and> htmpl_Execute H t
                 (pageData (Exec E H templates req resp name status hdr data)) = (body, None)
            \<and> returned (Exec E H templates req resp name status hdr data) = Returned None
            \<and> sink (Exec E H templates req resp name status hdr data) =
                resp @ [\<lparr>rb_header =
                           (if Header_Get hdr ''content-type'' = []
                            then hdr(''Content-Type'' \<mapsto> [''text/html; charset=utf-8''])
                            else hdr),
                         rb_status = status, rb_body = body\<rparr>])
       \<or> (sink (Exec E H templates req resp name status hdr data) = resp
          \<and> ((Get templates name = None
               \<and> returned (Exec E H templates req resp name status hdr data) =
                   Returned (Some (Error (''Template '' @ name @ '' not found''))))
             \<or> (\<exists>t body e. Get templates name = Some t
                   \<and> htmpl_Execute H t
                        (pageData (Exec E H templates req resp name status hdr data))
                      = (body, Some e)
                   \<and> returned (Exec E H templates req resp name status hdr data) =
                       Returned (Some e))
             \<or> (data \<noteq> NilData \<and> session_failed E req
                   \<and> returned (Exec E H templates req resp name status hdr data) =
                       Returned (snd (appauth_ReadSessionCookie E req)))
             \<or> (data \<noteq> NilData \<and> \<not> session_failed E req
                   \<and> (Common_of data = None \<or> \<not> Err_ok data)
                   \<and> (\<exists>p. returned (Exec E H templates req resp name status hdr data) =
                         Panicked p))))"
proof (cases rule: Exec_cases [of data E H templates req resp name status hdr])
  case nil
  from render_cases [OF assms, of templates name H data E req resp hdr
      "appEvent_of E req name status"]
  show ?thesis
    unfolding nil(2) pageData_render buffered_head_eq by fastforce
next
  case session
  then show ?thesis by simp
next
  case (panic p)
  then show ?thesis by simp
next
  case (injected data' ev')
  from render_cases [OF assms, of templates name H data' E req resp hdr ev']
  show ?thesis
    unfolding injected(5) pageData_render buffered_head_eq by fastforce
qed

theorem C1_flush_or_nothing_witness:
  "(200::int) \<noteq> StatusNotModified
   \<and> returned (Exec example_env example_htmpl example_templates example_req []
        ''page/home.html'' 200 Map.empty example_data) = Returned None
   \<and> sink (Exec example_env example_htmpl example_templates example_req []
        ''page/home.html'' 200 Map.empty example_data) =
       [\<lparr>rb_header = [''Content-Type'' \<mapsto> [''text/html; charset=utf-8'']],
         rb_status = 200, rb_body = ''{{define ROOT}}page{{end}}''\<rparr>]
   \<and> returned (Exec example_env example_htmpl example_templates example_req []
        ''page/broken.html'' 200 Map.empty example_data)
       = Returned (Some (Error ''helper panicked''))
   \<and> sink (Exec example_env example_htmpl example_templates example_req []
        ''page/broken.html'' 200 Map.empty example_data) = []
   \<and> returned (Exec example_env example_htmpl example_templates example_req []
        ''page/none.html'' 200 Map.empty example_data)
       = Returned (Some (Error ''Template page/none.html not found''))
   \<and> sink (Exec example_env example_htmpl example_templates example_req []
        ''page/none.html'' 200 Map.empty example_data) = []"
proof -
  have n: "(200::int) \<noteq> StatusNotModified"
    by (simp add: StatusNotModified_def)
  have d: "example_data \<noteq> NilData" "Common_of example_data \<noteq> None" "Err_ok example_data"
    by (simp_all add: example_data_Common example_data_Err_ok) (simp add: example_data_def)
  have g: "Header_Get Map.empty ''content-type'' = []"
    by (simp add: Header_Get_def)
  from C1_flush_or_nothing [OF n, of example_templates "''page/home.html''" example_htmpl
      example_env example_req "[]" Map.empty example_data]
  have 1: "returned (Exec example_env example_htmpl example_templates example_req []
        ''page/home.html'' 200 Map.empty example_data) = Returned None
   \<and> sink (Exec example_env example_htmpl example_templates example_req []
        ''page/home.html'' 200 Map.empty example_data) =
       [\<lparr>rb_header = [''Content-Type'' \<mapsto> [''text/html; charset=utf-8'']],
         rb_status = 200, rb_body = ''{{define ROOT}}page{{end}}''\<rparr>]"
    using d example_session_ok
    by (auto simp: example_Get_home example_Execute_home g)
  from C1_flush_or_nothing [OF n, of example_templates "''page/broken.html''" example_htmpl
      example_env example_req "[]" Map.empty example_data]
  have 2: "returned (Exec example_env example_htmpl example_templates example_req []
        ''page/broken.html'' 200 Map.empty example_data)
       = Returned (Some (Error ''helper panicked''))
   \<and> sink (Exec example_env example_htmpl example_templates example_req []
        ''page/broken.html'' 200 Map.empty example_data) = []"
    using d example_session_ok
    by (auto simp: example_Get_broken example_Execute_broken)
  from C1_flush_or_nothing [OF n, of example_templates "''page/none.html''" example_htmpl
      example_env example_req "[]" Map.empty example_data]
  have 3: "returned (Exec example_env example_htmpl example_templates example_req []
        ''page/none.html'' 200 Map.empty example_data)
       = Returned (Some (Error ''Template page/none.html not found''))
   \<and> sink (Exec example_env example_htmpl example_templates example_req []
        ''page/none.html'' 200 Map.empty example_data) = []"
    using d example_session_ok
    by (auto simp: example_Get_none)
  from n 1 2 3 show ?thesis by simp
qed

text \<open>
  Claim C2 as stated fails: with status 304 and a failing session read the call returns
  the session error, not success; and on a call that does return nil the sink has
  received nothing, the buffer being dropped without a flush.
\<close>

theorem C2_counterexample:
  "returned (Exec failing_env example_htmpl example_templates example_req []
      ''page/home.html'' StatusNotModified Map.empty example_data)
     = Returned (Some (Error ''session store unavailable''))
   \<and> sink (Exec example_env example_htmpl example_templates example_req []
      ''page/home.html'' StatusNotModified Map.empty NilData) = []"
proof -
  have 1: "returned (Exec failing_env example_htmpl example_templates example_req []
      ''page/home.html'' StatusNotModified Map.empty example_data)
     = Returned (Some (Error ''session store unavailable''))"
    using Exec_session_failed [OF _ failing_session_failed, of example_data example_htmpl
      example_templates "[]" "''page/home.html''" StatusNotModified Map.empty]
    by (simp add: failing_env_def example_env_def example_data_def)
  have 2: "sink (Exec example_env example_htmpl example_templates example_req []
      ''page/home.html'' StatusNotModified Map.empty NilData) = []"
    by (simp add: Exec_def render_def Let_def)
  from 1 2 show ?thesis by simp
qed

text \<open>
  Claim C2, amended. For every call of \<open>Exec\<close> with status 304 that gets past the page
  data block (the page data is nil, or the session read does not fail and the page data
  is of the right shape), the call returns nil; the result of the call is the same for
  every template engine and every registry, so neither is consulted; and the buffer
  built for the call holds the status 304 and the headers (with the default content
  type when none was given) and an empty body.
\<close>

theorem C2_NotModified:
  assumes "data = NilData \<or> (\<not> session_failed E req \<and> Common_of data \<noteq> None \<and> Err_ok data)"
  shows "returned (Exec E H templates req resp name StatusNotModified hdr data) = Returned None
   \<and> Exec E H' templates' req resp name StatusNotModified hdr data =
       Exec E H templates req resp name StatusNotModified hdr data
   \<and> buffered_head hdr StatusNotModified =
       \<lparr>rb_header = (if Header_Get hdr ''content-type'' = []
                      then hdr(''Content-Type'' \<mapsto> [''text/html; charset=utf-8'']) else hdr),
        rb_status = 304, rb_body = []\<rparr>"
proof -
  have "Exec E H templates req resp name StatusNotModified hdr data =
      Exec E H' templates' req resp name StatusNotModified hdr data"
    by (simp add: Exec_def Let_def render_NotModified
        split: outcome.splits sum.splits prod.splits)
  moreover have "returned (Exec E H templates req resp name StatusNotModified hdr data)
      = Returned None"
  proof (cases rule: Exec_cases [of data E H templates req resp name StatusNotModified hdr])
    case nil
    then show ?thesis by (simp add: render_NotModified)
  next
    case session
    with assms show ?thesis by simp
  next
    case (panic p)
    with assms show ?thesis by auto
  next
    case (injected data' ev')
    then show ?thesis by (simp add: render_NotModified)
  qed
  ultimately show ?thesis
    by (simp add: buffered_head_eq StatusNotModified_def)
qed

theorem C2_NotModified_witness:
  "returned (Exec example_env example_htmpl example_templates example_req []
      ''page/none.html'' StatusNotModified Map.empty example_data) = Returned None
   \<and> Exec example_env example_htmpl Map.empty example_req []
      ''page/none.html'' StatusNotModified Map.empty example_data =
     Exec example_env example_htmpl example_templates example_req []
      ''page/none.html'' StatusNotModified Map.empty example_data
   \<and> buffered_head Map.empty StatusNotModified =
       \<lparr>rb_header = [''Content-Type'' \<mapsto> [''text/html; charset=utf-8'']],
        rb_status = 304, rb_body = []\<rparr>"
proof -
  have a: "example_data = NilData
      \<or> (\<not> session_failed example_env example_req \<and> Common_of example_data \<noteq> None
          \<and> Err_ok example_data)"
    by (simp add: example_session_ok example_data_Common example_data_Err_ok)
  have g: "Header_Get Map.empty ''content-type'' = []"
    by (simp add: Header_Get_def)
  from C2_NotModified [OF a, of example_htmpl example_templates "[]" "''page/none.html''"
      Map.empty example_htmpl Map.empty] g
  show ?thesis by simp
qed

subsection \<open>The compiler and Load\<close>


lemma compile_set_InrD:
  "compile_set H Data tset = Inr (k, t) \<Longrightarrow> tset \<noteq> [] \<and> k = hd tset"
  by (auto simp: compile_set_def split: sum.splits option.splits list.splits)

lemma parse_fragments_fetch_fails:
  "tname \<in> set tnames \<Longrightarrow> fetch_fails Data tname \<Longrightarrow>
     \<exists>f. parse_fragments H Data tset tnames t = Inl f"
proof (induction tnames arbitrary: t)
  case Nil
  then show ?case by simp
next
  case (Cons a tnames)
  show ?case
  proof (cases "fetch_fails Data a")
    case True
    then show ?thesis
      by (auto simp: fetch_fails_def split: sum.splits)
  next
    case False
    with Cons.prems have "tname \<in> set tnames" by auto
    from Cons.IH [OF this Cons.prems(2)] show ?thesis
      by (auto split: sum.splits)
  qed
qed

lemma compile_set_fails:
  assumes "(\<exists>tname\<in>set tset. fetch_fails Data tname)
     \<or> (\<exists>err. parse_fragments H Data tset tset (htmpl_New H) = Inl (TemplateParse tset err))
     \<or> (\<exists>t. parse_fragments H Data tset tset (htmpl_New H) = Inr t
            \<and> htmpl_Lookup H t ''ROOT'' = None)"
  shows "\<exists>f. compile_set H Data tset = Inl f"
  using assms
proof (elim disjE bexE exE conjE)
  fix tname assume "tname \<in> set tset" "fetch_fails Data tname"
  from parse_fragments_fetch_fails [OF this, of H tset "htmpl_New H"]
  show ?thesis by (auto simp: compile_set_def)
next
  fix err assume "parse_fragments H Data tset tset (htmpl_New H) = Inl (TemplateParse tset err)"
  then show ?thesis by (simp add: compile_set_def)
next
  fix t assume "parse_fragments H Data tset tset (htmpl_New H) = Inr t"
    "htmpl_Lookup H t ''ROOT'' = None"
  then show ?thesis by (simp add: compile_set_def)
qed

text \<open>A run completes exactly when every task compiles.\<close>

lemma run_tasks_Completed_all:
  "run_tasks H Data tasks T = Completed T' \<Longrightarrow> s \<in> set tasks \<Longrightarrow>
     \<exists>t. compile_set H Data s = Inr (hd s, t)"
proof (induction tasks arbitrary: T)
  case Nil
  then show ?case by simp
next
  case (Cons a tasks)
  from Cons.prems(1) obtain k t where c: "compile_set H Data a = Inr (k, t)"
    and r: "run_tasks H Data tasks (Add k t T) = Completed T'"
    by (auto split: sum.splits)
  show ?case
  proof (cases "s = a")
    case True
    with c compile_set_InrD [OF c] show ?thesis by simp
  next
    case False
    with Cons.prems(2) have "s \<in> set tasks" by simp
    from Cons.IH [OF r this] show ?thesis .
  qed
qed


lemma run_tasks_some_fails:
  "s \<in> set tasks \<Longrightarrow> compile_set H Data s = Inl f \<Longrightarrow>
     \<exists>f' T'. run_tasks H Data tasks T = Aborted f' T'"
proof (induction tasks arbitrary: T)
  case Nil
  then show ?case by simp
next
  case (Cons a tasks)
  show ?case
  proof (cases "compile_set H Data a")
    case (Inl f0)
    then show ?thesis by simp
  next
    case (Inr kt)
    with Cons.prems have "s \<in> set tasks" by auto
    from Cons.IH [OF this Cons.prems(2)] Inr show ?thesis
      by (auto split: prod.splits)
  qed
qed


text \<open>Whatever a run changes in the registry is the unit of a task that compiled.\<close>

lemma run_tasks_changes:
  "registry_of (run_tasks H Data tasks T) k \<noteq> T k \<Longrightarrow>
     \<exists>s\<in>set tasks. \<exists>t. compile_set H Data s = Inr (k, t)
        \<and> registry_of (run_tasks H Data tasks T) k = Some t"
proof (induction tasks arbitrary: T)
  case Nil
  then show ?case by (simp add: registry_of_def)
next
  case (Cons a tasks)
  show ?case
  proof (cases "compile_set H Data a")
    case (Inl f)
    with Cons.prems show ?thesis by (simp add: registry_of_def)
  next
    case (Inr kt)
    obtain ka ta where kt: "kt = (ka, ta)" by force
    let ?R = "registry_of (run_tasks H Data tasks (Add ka ta T))"
    have R: "registry_of (run_tasks H Data (a # tasks) T) = ?R"
      using Inr kt by simp
    show ?thesis
    proof (cases "?R k = Add ka ta T k")
      case True
      with Cons.prems R have "ka = k" "?R k = Some ta"
        by (auto simp: Add_def split: if_splits)
      with Inr kt R show ?thesis by auto
    next
      case False
      from Cons.IH [OF False] R show ?thesis by auto
    qed
  qed
qed

lemma declared_tasks_groups: "declared_tasks = repo_tasks @ common_tasks @ standalone_tasks"
  by (simp add: declared_tasks_def repo_tasks_def common_tasks_def standalone_tasks_def)

lemma fair_set: "fair sched \<Longrightarrow> set (sched tasks) = set tasks"
  by (auto simp: fair_def dest: mset_eq_setD)

lemma Load_phases:
  "Load sched H Data T =
     (case run_tasks H Data (sched repo_tasks) T of
        Aborted f r \<Rightarrow> Aborted f r
      | Completed r1 \<Rightarrow>
          (case run_tasks H Data (sched common_tasks) r1 of
             Aborted f r \<Rightarrow> Aborted f r
           | Completed r2 \<Rightarrow> run_tasks H Data (sched standalone_tasks) r2))"
  by (simp add: Load_def repoTemplates_def commonTemplates_def standaloneTemplates_def
      parseHTMLTemplates_def repo_tasks_def common_tasks_def standalone_tasks_def
      split: startup.splits)



lemma Load_changes:
  assumes "fair sched" and ch: "registry_of (Load sched H Data T) k \<noteq> T k"
  shows "\<exists>s\<in>set declared_tasks. \<exists>t. compile_set H Data s = Inr (k, t)
           \<and> registry_of (Load sched H Data T) k = Some t"
proof -
  note fs = fair_set [OF assms(1)]
  let ?R1 = "run_tasks H Data (sched repo_tasks) T"
  have step: "\<And>tasks T0. set tasks \<subseteq> set declared_tasks \<Longrightarrow>
      registry_of (run_tasks H Data tasks T0) k \<noteq> T0 k \<Longrightarrow>
      \<exists>s\<in>set declared_tasks. \<exists>t. compile_set H Data s = Inr (k, t)
           \<and> registry_of (run_tasks H Data tasks T0) k = Some t"
    using run_tasks_changes by blast
  have sub: "set (sched repo_tasks) \<subseteq> set declared_tasks"
    "set (sched common_tasks) \<subseteq> set declared_tasks"
    "set (sched standalone_tasks) \<subseteq> set declared_tasks"
    by (auto simp: fs declared_tasks_groups)
  show ?thesis
  proof (cases ?R1)
    case (Aborted f r)
    then have "Load sched H Data T = ?R1" by (simp add: Load_phases)
    with ch step [OF sub(1), of T] show ?thesis by simp
  next
    case c1: (Completed T1)
    let ?R2 = "run_tasks H Data (sched common_tasks) T1"
    have k1: "T1 k \<noteq> T k \<Longrightarrow>
        \<exists>s\<in>set declared_tasks. \<exists>t. compile_set H Data s = Inr (k, t) \<and> T1 k = Some t"
      using step [OF sub(1), of T] c1 by (simp add: registry_of_def)
    show ?thesis
    proof (cases ?R2)
      case (Aborted f r)
      with c1 have L: "Load sched H Data T = ?R2" by (simp add: Load_phases)
      show ?thesis
      proof (cases "registry_of ?R2 k = T1 k")
        case True
        with ch L k1 show ?thesis by auto
      next
        case False
        from step [OF sub(2) False] L show ?thesis by simp
      qed
    next
      case c2: (Completed T2)
      let ?R3 = "run_tasks H Data (sched standalone_tasks) T2"
      from c1 c2 have L: "Load sched H Data T = ?R3" by (simp add: Load_phases)
      have k2: "T2 k \<noteq> T k \<Longrightarrow>
          \<exists>s\<in>set declared_tasks. \<exists>t. compile_set H Data s = Inr (k, t) \<and> T2 k = Some t"
      proof (cases "T2 k = T1 k")
        case True
        assume "T2 k \<noteq> T k"
        with True k1 show ?thesis by auto
      next
        case False
        with step [OF sub(2), of T1] c2 show ?thesis by (simp add: registry_of_def)
      qed
      show ?thesis
      proof (cases "registry_of ?R3 k = T2 k")
        case True
        with ch L k2 show ?thesis by auto
      next
        case False
        from step [OF sub(3) False] L show ?thesis by simp
      qed
    qed
  qed
qed

lemma Load_Completed_all:
  assumes "fair sched" and L: "Load sched H Data T = Completed T'"
    and d: "s \<in> set declared_tasks"
  shows "\<exists>t. compile_set H Data s = Inr (hd s, t)"
proof -
  from L obtain T1 T2 where
    r1: "run_tasks H Data (sched repo_tasks) T = Completed T1" and
    r2: "run_tasks H Data (sched common_tasks) T1 = Completed T2" and
    r3: "run_tasks H Data (sched standalone_tasks) T2 = Completed T'"
    by (auto simp: Load_phases split: startup.splits)
  from d have "s \<in> set (sched repo_tasks) \<or> s \<in> set (sched common_tasks)
      \<or> s \<in> set (sched standalone_tasks)"
    by (auto simp: fair_set [OF assms(1)] declared_tasks_groups)
  then show ?thesis
    using run_tasks_Completed_all [OF r1] run_tasks_Completed_all [OF r2]
      run_tasks_Completed_all [OF r3] by blast
qed

lemma Load_some_fails:
  assumes "fair sched" and "s \<in> set declared_tasks" and "compile_set H Data s = Inl f"
  shows "\<exists>f' T'. Load sched H Data T = Aborted f' T'"
proof (rule ccontr)
  assume "\<not> ?thesis"
  then obtain T' where "Load sched H Data T = Completed T'"
    by (cases "Load sched H Data T") auto
  from Load_Completed_all [OF assms(1) this assms(2)] assms(3) show False
    by auto
qed






lemma fair_rev: "fair rev"
  by (simp add: fair_def)



text \<open>
  Claim C8. Under any scheduler that runs each goroutine once: when one of the tasks
  cannot fetch a fragment, fails to parse, or lacks the root definition, the call of
  \<open>parseHTMLTemplates\<close> that runs it ends the process, and so does \<open>Load\<close> when the task
  is one of the declared sets; and whatever the registry holds at that moment that it did
  not hold before is the unit of a set that did compile, so no unit was registered for
  the failing set.
\<close>

theorem C8_fatal:
  assumes "fair sched"
    and "(\<exists>tname\<in>set task. fetch_fails Data tname)
       \<or> (\<exists>err. parse_fragments H Data task task (htmpl_New H) = Inl (TemplateParse task err))
       \<or> (\<exists>t. parse_fragments H Data task task (htmpl_New H) = Inr t
              \<and> htmpl_Lookup H t ''ROOT'' = None)"
  shows "(task \<in> set (map (with_layout layout) sets) \<longrightarrow>
            (\<exists>f T'. parseHTMLTemplates sched H Data sets layout T = Aborted f T'
               \<and> (\<forall>k. T' k \<noteq> T k \<longrightarrow>
                     (\<exists>s\<in>set sets. \<exists>t. compile_set H Data (with_layout layout s) = Inr (k, t)
                          \<and> T' k = Some t))))
       \<and> (task \<in> set declared_tasks \<longrightarrow>
            (\<exists>f T'. Load sched H Data T = Aborted f T'
               \<and> (\<forall>k. T' k \<noteq> T k \<longrightarrow>
                     (\<exists>s\<in>set declared_tasks. \<exists>t. compile_set H Data s = Inr (k, t)
                          \<and> T' k = Some t))))"
proof (intro conjI impI)
  from compile_set_fails [OF assms(2)] obtain f0 where f0: "compile_set H Data task = Inl f0"
    by blast
  note fs = fair_set [OF assms(1)]
  {
    assume m: "task \<in> set (map (with_layout layout) sets)"
    let ?tasks = "sched (map (with_layout layout) sets)"
    from m have "task \<in> set ?tasks" by (simp add: fs)
    from run_tasks_some_fails [OF this f0, of T] obtain f T' where
      r: "run_tasks H Data ?tasks T = Aborted f T'" by blast
    have "\<forall>k. T' k \<noteq> T k \<longrightarrow>
        (\<exists>s\<in>set sets. \<exists>t. compile_set H Data (with_layout layout s) = Inr (k, t)
            \<and> T' k = Some t)"
    proof (intro allI impI)
      fix k assume "T' k \<noteq> T k"
      with r have "registry_of (run_tasks H Data ?tasks T) k \<noteq> T k"
        by (simp add: registry_of_def)
      from run_tasks_changes [OF this] r
      show "\<exists>s\<in>set sets. \<exists>t. compile_set H Data (with_layout layout s) = Inr (k, t)
            \<and> T' k = Some t"
        by (auto simp: fs registry_of_def)
    qed
    with r show "\<exists>f T'. parseHTMLTemplates sched H Data sets layout T = Aborted f T'
               \<and> (\<forall>k. T' k \<noteq> T k \<longrightarrow>
                     (\<exists>s\<in>set sets. \<exists>t. compile_set H Data (with_layout layout s) = Inr (k, t)
                          \<and> T' k = Some t))"
      by (simp add: parseHTMLTemplates_def)
  }
  {
    assume m: "task \<in> set declared_tasks"
    from Load_some_fails [OF assms(1) m f0, of T] obtain f T' where
      L: "Load sched H Data T = Aborted f T'" by blast
    have "\<forall>k. T' k \<noteq> T k \<longrightarrow>
        (\<exists>s\<in>set declared_tasks. \<exists>t. compile_set H Data s = Inr (k, t) \<and> T' k = Some t)"
    proof (intro allI impI)
      fix k assume "T' k \<noteq> T k"
      with L have "registry_of (Load sched H Data T) k \<noteq> T k"
        by (simp add: registry_of_def)
      from Load_changes [OF assms(1) this] L
      show "\<exists>s\<in>set declared_tasks. \<exists>t. compile_set H Data s = Inr (k, t) \<and> T' k = Some t"
        by (simp add: registry_of_def)
    qed
    with L show "\<exists>f T'. Load sched H Data T = Aborted f T'
               \<and> (\<forall>k. T' k \<noteq> T k \<longrightarrow>
                     (\<exists>s\<in>set declared_tasks. \<exists>t. compile_set H Data s = Inr (k, t)
                          \<and> T' k = Some t))"
      by simp
  }
qed

theorem C8_fatal_witness:
  "fair rev
   \<and> fetch_fails example_Data ''missing.html''
   \<and> parseHTMLTemplates rev example_htmpl example_Data
        [[''page/home.html''], [''missing.html'']] (Some [''layout/footer.html'']) Map.empty
      = Aborted (ReadTemplateAsset ''missing.html'' (Error ''file does not exist'')) Map.empty
   \<and> (\<exists>f T'. parseHTMLTemplates (\<lambda>tasks. tasks) example_htmpl example_Data
        [[''page/home.html''], [''noroot.html'']] None Map.empty = Aborted f T'
        \<and> T' ''noroot.html'' = None)"
proof -
  have ff: "fetch_fails example_Data ''missing.html''"
    by (simp add: fetch_fails_def example_Data_def)
  have c1: "(\<exists>tname\<in>set [''missing.html'', ''layout/footer.html'']. fetch_fails example_Data tname)
       \<or> (\<exists>err. parse_fragments example_htmpl example_Data
              [''missing.html'', ''layout/footer.html'']
              [''missing.html'', ''layout/footer.html''] (htmpl_New example_htmpl)
            = Inl (TemplateParse [''missing.html'', ''layout/footer.html''] err))
       \<or> (\<exists>t. parse_fragments example_htmpl example_Data
              [''missing.html'', ''layout/footer.html'']
              [''missing.html'', ''layout/footer.html''] (htmpl_New example_htmpl) = Inr t
              \<and> htmpl_Lookup example_htmpl t ''ROOT'' = None)"
    using ff by simp
  from C8_fatal [OF fair_rev c1, of "Some [''layout/footer.html'']"
      "[[''page/home.html''], [''missing.html'']]" Map.empty]
  have a: "\<exists>f T'. parseHTMLTemplates rev example_htmpl example_Data
        [[''page/home.html''], [''missing.html'']] (Some [''layout/footer.html'']) Map.empty
      = Aborted f T'"
    by (auto simp: with_layout_def)
  have a': "parseHTMLTemplates rev example_htmpl example_Data
        [[''page/home.html''], [''missing.html'']] (Some [''layout/footer.html'']) Map.empty
      = Aborted (ReadTemplateAsset ''missing.html'' (Error ''file does not exist'')) Map.empty"
    by (simp add: parseHTMLTemplates_def with_layout_def compile_set_def example_Data_def
        example_page_def example_htmpl_def ReadAll_def)
  have fi: "fair (\<lambda>tasks. tasks)"
    by (simp add: fair_def)
  have p: "parse_fragments example_htmpl example_Data [''noroot.html''] [''noroot.html'']
        (htmpl_New example_htmpl) = Inr ''<p>fragment</p>''"
    by (simp add: example_Data_def example_htmpl_def ReadAll_def)
  have c2: "(\<exists>tname\<in>set [''noroot.html'']. fetch_fails example_Data tname)
       \<or> (\<exists>err. parse_fragments example_htmpl example_Data [''noroot.html'']
              [''noroot.html''] (htmpl_New example_htmpl)
            = Inl (TemplateParse [''noroot.html''] err))
       \<or> (\<exists>t. parse_fragments example_htmpl example_Data [''noroot.html'']
              [''noroot.html''] (htmpl_New example_htmpl) = Inr t
              \<and> htmpl_Lookup example_htmpl t ''ROOT'' = None)"
    using p by (simp add: example_htmpl_def)
  have k: "\<And>t. compile_set example_htmpl example_Data [''page/home.html'']
      \<noteq> Inr (''noroot.html'', t)"
    by (auto dest: compile_set_InrD)
  have k': "\<And>t. compile_set example_htmpl example_Data [''noroot.html'']
      \<noteq> Inr (''noroot.html'', t)"
    using compile_set_fails [OF c2] by auto
  from C8_fatal [OF fi c2, of None "[[''page/home.html''], [''noroot.html'']]" Map.empty]
  obtain f T' where b: "parseHTMLTemplates (\<lambda>tasks. tasks) example_htmpl example_Data
        [[''page/home.html''], [''noroot.html'']] None Map.empty = Aborted f T'"
    and ch: "\<forall>k. T' k \<noteq> Map.empty k \<longrightarrow>
       (\<exists>s\<in>set [[''page/home.html''], [''noroot.html'']].
          \<exists>t. compile_set example_htmpl example_Data (with_layout None s) = Inr (k, t)
            \<and> T' k = Some t)"
    by (auto simp: with_layout_def)
  from ch [rule_format, of "''noroot.html''"] k k' have "T' ''noroot.html'' = None"
    by (cases "T' ''noroot.html''") (auto simp: with_layout_def)
  with ff a' b fair_rev show ?thesis by blast
qed

end
